theory Spec2Isabelle
  imports Main "HOL-Library.Multiset"
begin

section \<open>Credential pool manager (src/lib/token-manager.ts)\<close>

subsection \<open>Data model\<close>

text \<open>
  The interfaces \<^verbatim>\<open>AccountToken\<close> and \<^verbatim>\<open>Account\<close>. Optional fields are options
  (\<open>None\<close> is JavaScript's \<^verbatim>\<open>undefined\<close>). Numbers are the integral seconds and
  milliseconds the code computes with, so they are integers. The field \<^verbatim>\<open>id\<close> is
  called \<open>acc_id\<close> here. \<^verbatim>\<open>subscription_tier\<close> is kept as the string it is at run
  time, since \<^verbatim>\<open>tierPriority\<close> has a default branch for every other value.
\<close>

record AccountToken =
  access_token :: string
  refresh_token :: string
  expires_in :: int
  expiry_timestamp :: int
  project_id :: "string option"

record Account =
  acc_id :: string
  email :: string
  token :: AccountToken
  disabled :: "bool option"
  proxy_disabled :: "bool option"
  subscription_tier :: "string option"

text \<open>The lines written to the console, one constructor per call site.\<close>

datatype log_entry =
    LogLoaded nat
  | ErrLoadFailed
  | ErrNoAccounts
  | LogExpiring string
  | ErrMissingClient
  | ErrRefreshFailed string string
  | LogRefreshed string
  | ErrRefreshError string

text \<open>
  What the variable \<^verbatim>\<open>accounts\<close> can hold at run time. It is declared
  \<^verbatim>\<open>Account[]\<close>, but \<^verbatim>\<open>loadAccounts\<close> assigns it whatever \<^verbatim>\<open>JSON.parse\<close> returns
  before anything looks at the value. \<open>ArrayValue\<close> is an array whose elements are
  account objects or \<^verbatim>\<open>null\<close> (\<open>None\<close>); \<open>NullValue\<close> is \<^verbatim>\<open>null\<close>; \<open>ObjectValue\<close>
  is an object that is not an array and has no property \<^verbatim>\<open>length\<close>, \<^verbatim>\<open>filter\<close> or
  \<^verbatim>\<open>NaN\<close>, such as \<^verbatim>\<open>{}\<close> or one account object that is not wrapped in an array;
  a number and a boolean behave in the same way. \<open>account_array\<close> is a well-formed
  account list. The other values \<^verbatim>\<open>JSON.parse\<close> can return, a string and an array
  with an element that is neither an account object nor \<^verbatim>\<open>null\<close>, are not modelled.
\<close>

datatype pool_value = ArrayValue "Account option list" | NullValue | ObjectValue

definition account_array :: "Account list \<Rightarrow> pool_value" where
  "account_array xs = ArrayValue (map Some xs)"

text \<open>
  The module state: \<^verbatim>\<open>accounts\<close>, \<^verbatim>\<open>currentIndex\<close>, \<^verbatim>\<open>lastRefreshTime\<close>. Two
  more components make the effects explicit: the console, and \<open>tick\<close>, the number of
  times the outside world has been consulted so far (a clock reading, a read of the
  environment, a call of the token endpoint).
\<close>

record tm_state =
  accounts :: pool_value
  currentIndex :: nat
  lastRefreshTime :: int
  console :: "log_entry list"
  tick :: nat

text \<open>
  What \<^verbatim>\<open>JSON.parse(process.env.ACCOUNTS_JSON || '[]')\<close> does: it throws, or it yields
  a value.
\<close>

datatype parse_outcome = SyntaxError | Parsed pool_value

text \<open>The exception the code can run into when the pool is not an account list.\<close>

datatype js_error = TypeError

text \<open>
  What the call of the token endpoint does: \<^verbatim>\<open>fetch\<close> rejects; the response is not
  ok (with its body text, \<open>None\<close> when reading the body rejects); the response is ok
  but \<^verbatim>\<open>response.json()\<close> rejects; the response is ok and carries \<^verbatim>\<open>access_token\<close>
  and \<^verbatim>\<open>expires_in\<close>.
\<close>

datatype fetch_outcome =
    FetchThrows
  | NotOk "string option"
  | OkBadBody
  | OkData string int

text \<open>
  The outside world. Each consultation is indexed by the tick at which it happens, so
  that successive readings of the clock and successive answers of the endpoint are
  independent of each other.
\<close>

record world =
  date_now :: "nat \<Rightarrow> int"
  env_ACCOUNTS_JSON :: "nat \<Rightarrow> parse_outcome"
  env_GOOGLE_CLIENT_ID :: "string option"
  env_GOOGLE_CLIENT_SECRET :: "string option"
  oauth_fetch :: "nat \<Rightarrow> string \<Rightarrow> fetch_outcome"

definition initial_state :: tm_state where
  "initial_state =
     \<lparr>accounts = ArrayValue [], currentIndex = 0, lastRefreshTime = 0, console = [],
      tick = 0\<rparr>"

definition log_line :: "log_entry \<Rightarrow> tm_state \<Rightarrow> tm_state" where
  "log_line e st = st\<lparr>console := console st @ [e]\<rparr>"

definition next_tick :: "tm_state \<Rightarrow> tm_state" where
  "next_tick st = st\<lparr>tick := Suc (tick st)\<rparr>"

text \<open>Truthiness of an optional boolean and of an optional string.\<close>

definition truthy_flag :: "bool option \<Rightarrow> bool" where
  "truthy_flag b = (b = Some True)"

definition truthy_str :: "string option \<Rightarrow> bool" where
  "truthy_str s = (case s of None \<Rightarrow> False | Some t \<Rightarrow> t \<noteq> [])"

subsection \<open>loadAccounts\<close>

definition tierPriority :: "string option \<Rightarrow> int" where
  "tierPriority tier =
     (if tier = Some ''ULTRA'' then 0
      else if tier = Some ''PRO'' then 1
      else if tier = Some ''FREE'' then 2
      else 3)"

text \<open>The comparator handed to \<^verbatim>\<open>accounts.sort\<close>.\<close>

definition tier_compare :: "Account \<Rightarrow> Account \<Rightarrow> int" where
  "tier_compare a b =
     tierPriority (subscription_tier a) - tierPriority (subscription_tier b)"

text \<open>
  \<^verbatim>\<open>Array.prototype.sort\<close> with a comparator: the language requires a stable sort,
  which for a consistent comparator fixes the result. It is modelled by the stable
  insertion sort: an element goes in front of the first element it does not compare
  greater than.
\<close>

fun insert_by :: "('a \<Rightarrow> 'a \<Rightarrow> int) \<Rightarrow> 'a \<Rightarrow> 'a list \<Rightarrow> 'a list" where
  "insert_by cmp x [] = [x]"
| "insert_by cmp x (y # ys) =
     (if cmp x y \<le> 0 then x # y # ys else y # insert_by cmp x ys)"

definition array_sort :: "('a \<Rightarrow> 'a \<Rightarrow> int) \<Rightarrow> 'a list \<Rightarrow> 'a list" where
  "array_sort cmp xs = foldr (insert_by cmp) xs []"

definition enabled :: "Account \<Rightarrow> bool" where
  "enabled acc = (\<not> truthy_flag (disabled acc) \<and> \<not> truthy_flag (proxy_disabled acc))"

text \<open>
  \<^verbatim>\<open>loadAccounts\<close> takes the outcome of parsing the environment variable and returns
  the list it returns together with the new state. When \<^verbatim>\<open>JSON.parse\<close> throws, the
  assignment to \<^verbatim>\<open>accounts\<close> on line 33 never happens. When it returns a value,
  that value is assigned to \<^verbatim>\<open>accounts\<close> first. Then \<^verbatim>\<open>accounts.filter\<close> throws when
  the value is not an array, and the callback of \<^verbatim>\<open>filter\<close> throws at an element that
  is \<^verbatim>\<open>null\<close>; in both cases the assignment on line 36 never happens. Every exception
  ends in the catch block, which logs and returns the empty list and assigns
  nothing.
\<close>

definition loadAccounts :: "parse_outcome \<Rightarrow> tm_state \<Rightarrow> Account list \<times> tm_state" where
  "loadAccounts blob st =
     (case blob of
        SyntaxError \<Rightarrow> ([], log_line ErrLoadFailed st)
      | Parsed parsed \<Rightarrow>
          (let st1 = st\<lparr>accounts := parsed\<rparr> in
           case parsed of
             NullValue \<Rightarrow> ([], log_line ErrLoadFailed st1)
           | ObjectValue \<Rightarrow> ([], log_line ErrLoadFailed st1)
           | ArrayValue elements \<Rightarrow>
               if None \<in> set elements then ([], log_line ErrLoadFailed st1)
               else
                 (let filtered = filter enabled (map the elements);
                      sorted_accs = array_sort tier_compare filtered;
                      st2 = log_line (LogLoaded (length sorted_accs))
                              (st1\<lparr>accounts := account_array sorted_accs\<rparr>)
                  in (sorted_accs, st2))))"

subsection \<open>refreshToken\<close>

text \<open>
  \<^verbatim>\<open>refreshToken(account)\<close> mutates the object it is given. The model returns the
  object as the call leaves it, next to the returned token (\<open>None\<close> is \<^verbatim>\<open>null\<close>).
\<close>

definition refreshToken ::
  "world \<Rightarrow> Account \<Rightarrow> tm_state \<Rightarrow> string option \<times> Account \<times> tm_state" where
  "refreshToken w account st =
     (if \<not> truthy_str (env_GOOGLE_CLIENT_ID w) \<or> \<not> truthy_str (env_GOOGLE_CLIENT_SECRET w)
      then (None, account, log_line ErrMissingClient st)
      else
        (case oauth_fetch w (tick st) (refresh_token (token account)) of
           FetchThrows \<Rightarrow>
             (None, account, log_line (ErrRefreshError (email account)) (next_tick st))
         | NotOk None \<Rightarrow>
             (None, account, log_line (ErrRefreshError (email account)) (next_tick st))
         | NotOk (Some err) \<Rightarrow>
             (None, account, log_line (ErrRefreshFailed (email account) err) (next_tick st))
         | OkBadBody \<Rightarrow>
             (None, account, log_line (ErrRefreshError (email account)) (next_tick st))
         | OkData new_token new_expires_in \<Rightarrow>
             (let st1 = next_tick st;
                  now = date_now w (tick st1) div 1000;
                  st2 = next_tick st1;
                  account' = account\<lparr>token := (token account)
                    \<lparr>access_token := new_token,
                     expires_in := new_expires_in,
                     expiry_timestamp := now + new_expires_in\<rparr>\<rparr>
              in (Some new_token, account', log_line (LogRefreshed (email account)) st2))))"

subsection \<open>getToken\<close>

text \<open>Lines 64 to 67: reload when the pool is empty or the last reload is stale.\<close>

definition do_reload :: "world \<Rightarrow> tm_state \<Rightarrow> tm_state" where
  "do_reload w st =
     (let st1 = snd (loadAccounts (env_ACCOUNTS_JSON w (tick st)) (next_tick st));
          t = date_now w (tick st1)
      in (next_tick st1)\<lparr>lastRefreshTime := t\<rparr>)"

text \<open>
  \<open>None\<close> is the \<^verbatim>\<open>TypeError\<close> of \<^verbatim>\<open>accounts.length\<close> when the pool is \<^verbatim>\<open>null\<close>.
  For an object without \<^verbatim>\<open>length\<close> the comparison with 0 is false, and the clock is
  read as for a pool that is not empty.
\<close>

definition reload_if_needed :: "world \<Rightarrow> tm_state \<Rightarrow> tm_state option" where
  "reload_if_needed w st =
     (case accounts st of
        NullValue \<Rightarrow> None
      | ObjectValue \<Rightarrow>
          Some (if date_now w (tick st) - lastRefreshTime st > 5 * 60 * 1000
                then do_reload w (next_tick st)
                else next_tick st)
      | ArrayValue elements \<Rightarrow>
          Some (if length elements = 0 then do_reload w st
                else if date_now w (tick st) - lastRefreshTime st > 5 * 60 * 1000
                     then do_reload w (next_tick st)
                     else next_tick st))"

text \<open>
  \<^verbatim>\<open>getToken\<close> calls itself when a refresh fails, with nothing that bounds the number
  of calls, so it is a partial function: \<open>None\<close> means that the call never returns.
  Where it returns, the result is \<open>Inr None\<close> for \<^verbatim>\<open>null\<close>, \<open>Inr (Some (account,
  token))\<close> for the object it returns, and \<open>Inl TypeError\<close> where the promise rejects:
  at \<^verbatim>\<open>accounts.length\<close> of a pool that is \<^verbatim>\<open>null\<close>, and at \<^verbatim>\<open>account.token\<close> (line
  80, after the cursor has advanced and the clock has been read) when the selected
  element is \<^verbatim>\<open>null\<close> or, for a pool that is no array, \<^verbatim>\<open>undefined\<close>. The selected
  object is the element of the pool at the selected index, so what \<^verbatim>\<open>refreshToken\<close>
  does to it is written back there. A returned token that is the empty string is
  falsy, and is treated as a failed refresh.
\<close>

type_synonym token_result = "js_error + (Account \<times> string) option"

partial_function (option) getToken ::
  "world \<Rightarrow> tm_state \<Rightarrow> (token_result \<times> tm_state) option" where
  "getToken w st =
     (case reload_if_needed w st of
        None \<Rightarrow> Some (Inl TypeError, st)
      | Some st1 \<Rightarrow>
          (case accounts st1 of
             NullValue \<Rightarrow> Some (Inl TypeError, st1)
           | ObjectValue \<Rightarrow>
               Some (Inl TypeError, next_tick (st1\<lparr>currentIndex := currentIndex st1 + 1\<rparr>))
           | ArrayValue elements \<Rightarrow>
               if length elements = 0 then Some (Inr None, log_line ErrNoAccounts st1)
               else
                 let idx = currentIndex st1 mod length elements;
                     st2 = st1\<lparr>currentIndex := currentIndex st1 + 1\<rparr>;
                     now = date_now w (tick st2) div 1000;
                     st3 = next_tick st2
                 in (case elements ! idx of
                       None \<Rightarrow> Some (Inl TypeError, st3)
                     | Some account \<Rightarrow>
                         if now \<ge> expiry_timestamp (token account) - 300
                         then
                           (case refreshToken w account
                                   (log_line (LogExpiring (email account)) st3) of
                              (refreshed, account', st4) \<Rightarrow>
                                (let st5 = st4\<lparr>accounts :=
                                             ArrayValue (elements[idx := Some account'])\<rparr>
                                 in if truthy_str refreshed
                                    then Some (Inr (Some (account', the refreshed)), st5)
                                    else getToken w st5))
                         else Some (Inr (Some (account, access_token (token account))),
                                    st3))))"

text \<open>Consecutive calls of \<^verbatim>\<open>getToken\<close>, with the results in order.\<close>

fun getTokens ::
  "world \<Rightarrow> nat \<Rightarrow> tm_state \<Rightarrow> (token_result list \<times> tm_state) option" where
  "getTokens w 0 st = Some ([], st)"
| "getTokens w (Suc n) st =
     (case getToken w st of
        None \<Rightarrow> None
      | Some (r, st') \<Rightarrow>
          (case getTokens w n st' of
             None \<Rightarrow> None
           | Some (rs, st'') \<Rightarrow> Some (r # rs, st'')))"

section \<open>Upstream responses\<close>

text \<open>
  The upstream response, as far as the code reads it. Every field is optional, as in
  the JSON the upstream sends; the code reaches each one through \<^verbatim>\<open>?.\<close>.
\<close>

record GeminiPart =
  part_text :: "string option"

record GeminiContent =
  parts :: "GeminiPart list option"

record GeminiCandidate =
  content :: "GeminiContent option"
  finishReason :: "string option"

record UsageMetadata =
  promptTokenCount :: "int option"
  candidatesTokenCount :: "int option"
  totalTokenCount :: "int option"

record GeminiResponse =
  candidates :: "GeminiCandidate list option"
  usageMetadata :: "UsageMetadata option"

text \<open>\<^verbatim>\<open>geminiResponse.candidates?.[0]\<close>\<close>

definition first_candidate :: "GeminiResponse \<Rightarrow> GeminiCandidate option" where
  "first_candidate r =
     (case candidates r of None \<Rightarrow> None | Some [] \<Rightarrow> None | Some (c # _) \<Rightarrow> Some c)"

text \<open>\<^verbatim>\<open>p.text || ''\<close> and \<^verbatim>\<open>n || 0\<close>\<close>

definition text_or_empty :: "GeminiPart \<Rightarrow> string" where
  "text_or_empty p = (case part_text p of None \<Rightarrow> [] | Some t \<Rightarrow> t)"

definition or_zero :: "int option \<Rightarrow> int" where
  "or_zero n = (case n of None \<Rightarrow> 0 | Some k \<Rightarrow> k)"

text \<open>\<^verbatim>\<open>candidate.content?.parts?.map((p) => p.text || '').join('') || ''\<close>\<close>

definition all_parts_text :: "GeminiCandidate \<Rightarrow> string" where
  "all_parts_text c =
     (case content c of
        None \<Rightarrow> []
      | Some ct \<Rightarrow>
          (case parts ct of
             None \<Rightarrow> []
           | Some ps \<Rightarrow> concat (map text_or_empty ps)))"

text \<open>A field of the usage metadata, \<^verbatim>\<open>geminiResponse.usageMetadata?.f || 0\<close>.\<close>

definition usage_count :: "(UsageMetadata \<Rightarrow> int option) \<Rightarrow> GeminiResponse \<Rightarrow> int" where
  "usage_count f r = (case usageMetadata r of None \<Rightarrow> 0 | Some u \<Rightarrow> or_zero (f u))"

section \<open>Response translators\<close>

subsection \<open>convertResponse (src/lib/upstream.ts)\<close>

text \<open>
  The fields \<^verbatim>\<open>id\<close> and \<^verbatim>\<open>created\<close>, which hold the wall-clock time, are left
  out of the responses and of the stream events below.
\<close>

record OpenAIMessage =
  msg_role :: string
  msg_content :: string

record OpenAIChoice =
  choice_index :: nat
  choice_message :: OpenAIMessage
  choice_finish_reason :: string

record OpenAIUsage =
  prompt_tokens :: int
  completion_tokens :: int
  total_tokens :: int

record OpenAIResponse =
  oa_object :: string
  oa_model :: string
  oa_choices :: "OpenAIChoice list"
  oa_usage :: OpenAIUsage

definition convertResponse :: "GeminiResponse \<Rightarrow> string \<Rightarrow> OpenAIResponse" where
  "convertResponse geminiResponse model =
     (case first_candidate geminiResponse of
        None \<Rightarrow>
          \<lparr>oa_object = ''chat.completion'', oa_model = model, oa_choices = [],
           oa_usage = \<lparr>prompt_tokens = 0, completion_tokens = 0, total_tokens = 0\<rparr>\<rparr>
      | Some candidate \<Rightarrow>
          (let content_text = all_parts_text candidate;
               finish =
                 (if finishReason candidate = Some ''STOP'' then ''stop''
                  else if finishReason candidate = Some ''MAX_TOKENS'' then ''length''
                  else ''stop'')
           in \<lparr>oa_object = ''chat.completion'', oa_model = model,
               oa_choices =
                 [\<lparr>choice_index = 0,
                   choice_message = \<lparr>msg_role = ''assistant'', msg_content = content_text\<rparr>,
                   choice_finish_reason = finish\<rparr>],
               oa_usage =
                 \<lparr>prompt_tokens = usage_count promptTokenCount geminiResponse,
                  completion_tokens = usage_count candidatesTokenCount geminiResponse,
                  total_tokens = usage_count totalTokenCount geminiResponse\<rparr>\<rparr>))"

subsection \<open>convertGeminiToClaude (src/app/api/v1/messages/route.ts)\<close>

record ClaudeBlock =
  block_type :: string
  block_text :: string

record ClaudeUsage =
  input_tokens :: int
  output_tokens :: int

record ClaudeResponse =
  cl_type :: string
  cl_role :: string
  cl_content :: "ClaudeBlock list"
  cl_model :: string
  cl_stop_reason :: string
  cl_stop_sequence :: "string option"
  cl_usage :: ClaudeUsage

definition convertGeminiToClaude :: "GeminiResponse \<Rightarrow> string \<Rightarrow> ClaudeResponse" where
  "convertGeminiToClaude geminiResponse model =
     (let candidate = first_candidate geminiResponse;
          txt = (case candidate of None \<Rightarrow> [] | Some c \<Rightarrow> all_parts_text c);
          reason = (case candidate of None \<Rightarrow> None | Some c \<Rightarrow> finishReason c);
          stopReason =
            (if reason = Some ''STOP'' then ''end_turn''
             else if reason = Some ''MAX_TOKENS'' then ''max_tokens''
             else ''end_turn'')
      in \<lparr>cl_type = ''message'', cl_role = ''assistant'',
          cl_content = [\<lparr>block_type = ''text'', block_text = txt\<rparr>],
          cl_model = model, cl_stop_reason = stopReason, cl_stop_sequence = None,
          cl_usage =
            \<lparr>input_tokens = usage_count promptTokenCount geminiResponse,
             output_tokens = usage_count candidatesTokenCount geminiResponse\<rparr>\<rparr>)"

section \<open>Streaming re-encoders\<close>

text \<open>
  \<^verbatim>\<open>buffer.split('\\n')\<close>: the pieces between the newlines, at least one piece. The
  last piece is what \<^verbatim>\<open>lines.pop()\<close> takes back into the buffer.
\<close>

fun split_newline :: "string \<Rightarrow> string list" where
  "split_newline [] = [[]]"
| "split_newline (c # cs) =
     (if c = CHR 0x0A then [] # split_newline cs
      else (case split_newline cs of
              [] \<Rightarrow> [[c]]
            | l # ls \<Rightarrow> (c # l) # ls))"

text \<open>
  \<^verbatim>\<open>geminiData.candidates?.[0]?.content?.parts?.[0]?.text || ''\<close>, the text both
  stream loops take from a parsed event.
\<close>

definition first_part_text :: "GeminiResponse \<Rightarrow> string" where
  "first_part_text g =
     (case first_candidate g of
        None \<Rightarrow> []
      | Some c \<Rightarrow>
          (case content c of
             None \<Rightarrow> []
           | Some ct \<Rightarrow>
               (case parts ct of
                  None \<Rightarrow> []
                | Some [] \<Rightarrow> []
                | Some (p # _) \<Rightarrow> text_or_empty p)))"

text \<open>\<^verbatim>\<open>geminiData.candidates?.[0]?.finishReason\<close> as a condition.\<close>

definition has_finish :: "GeminiResponse \<Rightarrow> bool" where
  "has_finish g =
     (case first_candidate g of
        None \<Rightarrow> False
      | Some c \<Rightarrow> (case finishReason c of None \<Rightarrow> False | Some r \<Rightarrow> r \<noteq> []))"

text \<open>
  What a stream loop reads: the decoded text of each successful \<^verbatim>\<open>reader.read()\<close>,
  and how the reading ends (the reader is done, or a read rejects). What it leaves
  behind: the events enqueued, in order, the lines logged as unparsable, and whether
  the controller was closed or put in error. \<^verbatim>\<open>JSON.parse\<close> is a parameter of the
  loops: \<open>None\<close> where it throws.
\<close>

datatype stream_end = ReaderDone | ReadRejects

datatype stream_status = Closed | Errored

type_synonym json_parse = "string \<Rightarrow> GeminiResponse option"

subsection \<open>The chat-completion stream (forwardChatCompletion)\<close>

datatype openai_event =
    Chunk string "string option" "string option"
  | DoneMarker

text \<open>
  \<open>Chunk model delta_content finish_reason\<close> is the object sent after \<^verbatim>\<open>data: \<close>:
  a delta \<^verbatim>\<open>{}\<close> is \<open>None\<close>, a finish reason \<^verbatim>\<open>null\<close> is \<open>None\<close>.
\<close>

text \<open>The state of the loop: the buffer, the events so far, the parse errors logged.\<close>

record openai_stream =
  oa_buffer :: string
  oa_events :: "openai_event list"
  oa_parse_errors :: nat

text \<open>What the body of the \<^verbatim>\<open>try\<close> block enqueues for a parsed event.\<close>

definition openai_chunk :: "string \<Rightarrow> GeminiResponse \<Rightarrow> openai_event list" where
  "openai_chunk model geminiData =
     (let txt = first_part_text geminiData;
          delta = (if txt \<noteq> [] then [Chunk model (Some txt) None] else []);
          finish =
            (if has_finish geminiData then [Chunk model None (Some ''stop'')] else [])
      in delta @ finish)"

definition openai_line :: "json_parse \<Rightarrow> string \<Rightarrow> openai_stream \<Rightarrow> string \<Rightarrow> openai_stream" where
  "openai_line parse model st line =
     (if take 6 line = ''data: '' then
        (let data = drop 6 line in
         if data = ''[DONE]'' then st\<lparr>oa_events := oa_events st @ [DoneMarker]\<rparr>
         else
           (case parse data of
              None \<Rightarrow> st\<lparr>oa_parse_errors := oa_parse_errors st + 1\<rparr>
            | Some geminiData \<Rightarrow>
                st\<lparr>oa_events := oa_events st @ openai_chunk model geminiData\<rparr>))
      else st)"

definition openai_read :: "json_parse \<Rightarrow> string \<Rightarrow> openai_stream \<Rightarrow> string \<Rightarrow> openai_stream" where
  "openai_read parse model st decoded =
     (let pieces = split_newline (oa_buffer st @ decoded)
      in foldl (openai_line parse model) (st\<lparr>oa_buffer := last pieces\<rparr>) (butlast pieces))"

definition openai_stream_run ::
  "json_parse \<Rightarrow> string \<Rightarrow> string list \<Rightarrow> stream_end \<Rightarrow> openai_event list \<times> stream_status" where
  "openai_stream_run parse model reads ending =
     (let st = foldl (openai_read parse model)
                 \<lparr>oa_buffer = [], oa_events = [], oa_parse_errors = 0\<rparr> reads
      in (case ending of
            ReaderDone \<Rightarrow> (oa_events st @ [DoneMarker], Closed)
          | ReadRejects \<Rightarrow> (oa_events st, Errored)))"

subsection \<open>The messages stream (POST of src/app/api/v1/messages/route.ts)\<close>

datatype claude_event =
    MessageStart string
  | ContentBlockStart
  | ContentBlockDelta string
  | ContentBlockStop
  | MessageDelta string int
  | MessageStop

text \<open>
  \<open>MessageStart model\<close>; \<open>ContentBlockDelta text\<close>; \<open>MessageDelta stop_reason
  output_tokens\<close>.
\<close>

record claude_stream =
  cl_buffer :: string
  messageStarted :: bool
  cl_events :: "claude_event list"
  cl_parse_errors :: nat

text \<open>
  What the body of the \<^verbatim>\<open>try\<close> block enqueues for a parsed event, given the flag
  \<^verbatim>\<open>messageStarted\<close>.
\<close>

definition claude_chunk :: "string \<Rightarrow> bool \<Rightarrow> GeminiResponse \<Rightarrow> claude_event list" where
  "claude_chunk model started geminiData =
     (let txt = first_part_text geminiData;
          opening = (if \<not> started then [MessageStart model, ContentBlockStart] else []);
          delta = (if txt \<noteq> [] then [ContentBlockDelta txt] else []);
          finish =
            (if has_finish geminiData
             then [ContentBlockStop,
                   MessageDelta ''end_turn'' (usage_count candidatesTokenCount geminiData),
                   MessageStop]
             else [])
      in opening @ delta @ finish)"

definition claude_line :: "json_parse \<Rightarrow> string \<Rightarrow> claude_stream \<Rightarrow> string \<Rightarrow> claude_stream" where
  "claude_line parse model st line =
     (if take 6 line = ''data: '' then
        (let data = drop 6 line in
         if data = ''[DONE]'' then st
         else
           (case parse data of
              None \<Rightarrow> st\<lparr>cl_parse_errors := cl_parse_errors st + 1\<rparr>
            | Some geminiData \<Rightarrow>
                st\<lparr>messageStarted := True,
                   cl_events :=
                     cl_events st @ claude_chunk model (messageStarted st) geminiData\<rparr>))
      else st)"

definition claude_read :: "json_parse \<Rightarrow> string \<Rightarrow> claude_stream \<Rightarrow> string \<Rightarrow> claude_stream" where
  "claude_read parse model st decoded =
     (let pieces = split_newline (cl_buffer st @ decoded)
      in foldl (claude_line parse model) (st\<lparr>cl_buffer := last pieces\<rparr>) (butlast pieces))"

definition claude_stream_run ::
  "json_parse \<Rightarrow> string \<Rightarrow> string list \<Rightarrow> stream_end \<Rightarrow> claude_event list \<times> stream_status" where
  "claude_stream_run parse model reads ending =
     (let st = foldl (claude_read parse model)
                 \<lparr>cl_buffer = [], messageStarted = False, cl_events = [],
                  cl_parse_errors = 0\<rparr> reads
      in (cl_events st, (case ending of ReaderDone \<Rightarrow> Closed | ReadRejects \<Rightarrow> Errored)))"


section \<open>Request handlers\<close>

text \<open>
  What a handler does with a request: it answers with an error body, it hands the
  request on, or an exception leaves it uncaught. The two shapes of error body are
  \<^verbatim>\<open>{error: {message, type, code?}}\<close> and \<^verbatim>\<open>{type: 'error', error: {type, message}}\<close>.
\<close>

datatype error_body =
    OpenAIErr string string "string option"
  | ClaudeErr string string

datatype 'a outcome =
    Respond nat error_body
  | HandsOn 'a
  | UncaughtTypeError

text \<open>
  The handlers are given what their collaborators return: \<^verbatim>\<open>validateApiKey\<close>,
  \<^verbatim>\<open>request.json()\<close> (\<open>None\<close> where it rejects) and \<^verbatim>\<open>getToken()\<close>.
\<close>

record AuthResult =
  valid :: bool
  auth_error :: "string option"

definition unauthorizedResponse :: "string option \<Rightarrow> 'a outcome" where
  "unauthorizedResponse err =
     Respond 401
       (OpenAIErr (case err of None \<Rightarrow> [] | Some e \<Rightarrow> e) ''invalid_request_error''
          (Some ''invalid_api_key''))"

subsection \<open>POST /api/v1/chat/completions\<close>

record ImageUrl =
  url :: string

record ChatPart =
  cp_type :: string
  cp_text :: "string option"
  cp_image_url :: "ImageUrl option"

datatype ChatContent = ChatText string | ChatParts "ChatPart list"

record ChatMessage =
  chat_role :: string
  chat_content :: ChatContent

text \<open>Numbers that are only passed on have the type parameter \<open>'n\<close>.\<close>

record 'n ChatCompletionRequest =
  cc_model :: "string option"
  cc_messages :: "ChatMessage list option"
  cc_stream :: "bool option"
  cc_temperature :: "'n option"
  cc_max_tokens :: "'n option"
  cc_top_p :: "'n option"
  cc_stop :: "string list option"

text \<open>
  The handler up to the call of \<^verbatim>\<open>forwardChatCompletion(body, tokenResult.token)\<close>,
  which holds the request translator \<^verbatim>\<open>convertMessages\<close>.
\<close>

definition POST_chat_completions ::
  "AuthResult \<Rightarrow> 'n ChatCompletionRequest option \<Rightarrow> (Account \<times> string) option
     \<Rightarrow> ('n ChatCompletionRequest \<times> string) outcome" where
  "POST_chat_completions auth parsed tokenResult =
     (if \<not> valid auth then unauthorizedResponse (auth_error auth)
      else
        (case parsed of
           None \<Rightarrow> Respond 400 (OpenAIErr ''Invalid JSON body'' ''invalid_request_error'' None)
         | Some body \<Rightarrow>
             if \<not> truthy_str (cc_model body)
             then Respond 400
                    (OpenAIErr ''Missing required field: model'' ''invalid_request_error'' None)
             else if cc_messages body = None \<or> cc_messages body = Some []
             then Respond 400
                    (OpenAIErr ''Missing required field: messages'' ''invalid_request_error''
                       None)
             else
               (case tokenResult of
                  None \<Rightarrow>
                    Respond 503
                      (OpenAIErr ''No available accounts. Please configure ACCOUNTS_JSON.''
                         ''server_error'' None)
                | Some (account, tok) \<Rightarrow> HandsOn (body, tok))))"

subsection \<open>POST /api/v1/messages\<close>

record ImageSource =
  src_type :: string
  media_type :: string
  src_data :: string

record ClaudeContentBlock =
  cb_type :: string
  cb_text :: "string option"
  cb_source :: "ImageSource option"

datatype ClaudeContent = ClaudeText string | ClaudeBlocks "ClaudeContentBlock list"

record ClaudeMessage =
  cm_role :: string
  cm_content :: ClaudeContent

record 'n ClaudeRequest =
  cr_model :: "string option"
  cr_messages :: "ClaudeMessage list option"
  cr_max_tokens :: "'n option"
  cr_stream :: "bool option"
  cr_system :: "string option"
  cr_temperature :: "'n option"
  cr_top_p :: "'n option"
  cr_stop_sequences :: "string list option"

datatype GeminiRequestPart = TextPart string | InlineData string string

record GeminiTurn =
  turn_role :: string
  turn_parts :: "GeminiRequestPart list"

record 'n GenerationConfig =
  maxOutputTokens :: "'n option"
  temperature :: "'n option"
  topP :: "'n option"
  stopSequences :: "string list option"

record 'n GeminiRequest =
  contents :: "GeminiTurn list"
  generationConfig :: "'n GenerationConfig"
  systemInstruction :: "string option"

definition convert_block :: "ClaudeContentBlock \<Rightarrow> GeminiRequestPart list" where
  "convert_block block =
     (if cb_type block = ''text'' \<and> truthy_str (cb_text block)
      then [TextPart (the (cb_text block))]
      else if cb_type block = ''image'' \<and> cb_source block \<noteq> None
      then [InlineData (media_type (the (cb_source block))) (src_data (the (cb_source block)))]
      else [])"

definition convert_message :: "ClaudeMessage \<Rightarrow> GeminiTurn" where
  "convert_message msg =
     \<lparr>turn_role = (if cm_role msg = ''assistant'' then ''model'' else ''user''),
      turn_parts =
        (case cm_content msg of
           ClaudeText s \<Rightarrow> [TextPart s]
         | ClaudeBlocks blocks \<Rightarrow> concat (map convert_block blocks))\<rparr>"

text \<open>
  \<^verbatim>\<open>convertClaudeToGemini\<close>: the loop \<^verbatim>\<open>for (const msg of request.messages)\<close> throws a
  \<^verbatim>\<open>TypeError\<close> when there are no messages to iterate; \<open>None\<close> is that exception.
\<close>

definition convertClaudeToGemini :: "'n ClaudeRequest \<Rightarrow> 'n GeminiRequest option" where
  "convertClaudeToGemini request =
     (case cr_messages request of
        None \<Rightarrow> None
      | Some msgs \<Rightarrow>
          Some \<lparr>contents = map convert_message msgs,
                generationConfig =
                  \<lparr>maxOutputTokens = cr_max_tokens request,
                   temperature = cr_temperature request,
                   topP = cr_top_p request,
                   stopSequences = cr_stop_sequences request\<rparr>,
                systemInstruction =
                  (if truthy_str (cr_system request) then cr_system request else None)\<rparr>)"

text \<open>
  The handler up to the call of the upstream. Between the token and the translator
  it calls \<^verbatim>\<open>mapModel(body.model)\<close>, which only looks the name up. The translator is
  called outside the \<^verbatim>\<open>try\<close> block, so its exception leaves the handler.
\<close>

definition POST_messages ::
  "AuthResult \<Rightarrow> 'n ClaudeRequest option \<Rightarrow> (Account \<times> string) option
     \<Rightarrow> ('n GeminiRequest \<times> string) outcome" where
  "POST_messages auth parsed tokenResult =
     (if \<not> valid auth then unauthorizedResponse (auth_error auth)
      else
        (case parsed of
           None \<Rightarrow> Respond 400 (ClaudeErr ''invalid_request_error'' ''Invalid JSON body'')
         | Some body \<Rightarrow>
             (case tokenResult of
                None \<Rightarrow> Respond 529 (ClaudeErr ''overloaded_error'' ''No available accounts'')
              | Some (account, tok) \<Rightarrow>
                  (case convertClaudeToGemini body of
                     None \<Rightarrow> UncaughtTypeError
                   | Some geminiRequest \<Rightarrow> HandsOn (geminiRequest, tok)))))"

section \<open>Predicates used in the statements\<close>

text \<open>
  Two accounts are the same account when they differ at most in the token, which is
  all that \<^verbatim>\<open>refreshToken\<close> changes.
\<close>

definition same_account :: "Account \<Rightarrow> Account \<Rightarrow> bool" where
  "same_account a b = (a\<lparr>token := token b\<rparr> = b)"

definition refresh_ok :: "world \<Rightarrow> bool" where
  "refresh_ok w =
     (truthy_str (env_GOOGLE_CLIENT_ID w) \<and> truthy_str (env_GOOGLE_CLIENT_SECRET w) \<and>
      (\<forall>k r. \<exists>tok e. oauth_fetch w k r = OkData tok e \<and> tok \<noteq> []))"

definition fresh_forever :: "world \<Rightarrow> Account \<Rightarrow> bool" where
  "fresh_forever w a = (\<forall>k. date_now w k div 1000 < expiry_timestamp (token a) - 300)"

text \<open>
  \<open>refresh_ok\<close>: the client credentials are set and the token endpoint answers every
  request with a usable token. \<open>fresh_forever\<close>: at no reading of the clock is the
  account within 300 seconds of its expiry. \<open>expiring_forever\<close>: at every reading
  it is. \<open>hopeless\<close>: no refresh ever yields a token, and every reload finds a
  pool that is not empty and whose accounts are all near expiry at every reading.
\<close>

definition expiring_forever :: "world \<Rightarrow> Account \<Rightarrow> bool" where
  "expiring_forever w a = (\<forall>k. expiry_timestamp (token a) - 300 \<le> date_now w k div 1000)"

definition hopeless :: "world \<Rightarrow> bool" where
  "hopeless w =
     ((\<forall>a st. fst (refreshToken w a st) = None) \<and>
      (\<forall>k. \<exists>accs. env_ACCOUNTS_JSON w k = Parsed (account_array accs) \<and> filter enabled accs \<noteq> [] \<and>
                 (\<forall>a \<in> set accs. expiring_forever w a)))"

text \<open>
  \<open>acquires w s r s' acc\<close>: in the state \<open>s\<close>, \<^verbatim>\<open>getToken\<close> returns \<open>r\<close> and leaves
  the state \<open>s'\<close>, and \<open>r\<close> is the account \<open>acc\<close> with its own access token when the
  clock (read second in the call) shows it more than 300 seconds from expiry, and
  otherwise \<open>acc\<close> with the token the endpoint grants (asked third, the clock read
  fourth), together with that token. It is used in the proof of the rotation only.
\<close>

definition acquires :: "world \<Rightarrow> tm_state \<Rightarrow> token_result \<Rightarrow> tm_state \<Rightarrow> Account \<Rightarrow> bool" where
  "acquires w s r s' acc =
     (\<exists>a tok. getToken w s = Some (r, s') \<and> r = Inr (Some (a, tok)) \<and>
        (if date_now w (Suc (tick s)) div 1000 < expiry_timestamp (token acc) - 300
         then a = acc \<and> tok = access_token (token acc)
         else \<exists>e. oauth_fetch w (tick s + 2) (refresh_token (token acc)) = OkData tok e \<and>
                a = acc\<lparr>token := (token acc)
                  \<lparr>access_token := tok, expires_in := e,
                   expiry_timestamp := date_now w (tick s + 3) div 1000 + e\<rparr>\<rparr>))"

text \<open>One upstream event as the upstream sends it: a data line and an empty line.\<close>

definition sse_event :: "string \<Rightarrow> string" where
  "sse_event payload = ''data: '' @ payload @ [CHR 0x0A, CHR 0x0A]"

section \<open>Concrete inputs\<close>

text \<open>The accounts, worlds, states and events the closed theorems below evaluate.\<close>

definition mk_account :: "string \<Rightarrow> string option \<Rightarrow> bool option \<Rightarrow> int \<Rightarrow> Account" where
  "mk_account name tier dis expiry =
     \<lparr>acc_id = name, email = name @ ''@example.com'',
      token = \<lparr>access_token = ''at-'' @ name, refresh_token = ''rt-'' @ name,
               expires_in = 3600, expiry_timestamp = expiry, project_id = None\<rparr>,
      disabled = dis, proxy_disabled = None, subscription_tier = tier\<rparr>"

definition test_world :: "Account list \<Rightarrow> string option \<Rightarrow> fetch_outcome \<Rightarrow> world" where
  "test_world accs client answer =
     \<lparr>date_now = (\<lambda>_. 1700000000000),
      env_ACCOUNTS_JSON = (\<lambda>_. Parsed (account_array accs)),
      env_GOOGLE_CLIENT_ID = client,
      env_GOOGLE_CLIENT_SECRET = client,
      oauth_fetch = (\<lambda>_ _. answer)\<rparr>"

definition acct_a :: Account where
  "acct_a = mk_account ''a'' (Some ''PRO'') None 0"

definition acct_b :: Account where
  "acct_b = mk_account ''b'' (Some ''PRO'') None 1800000000"

definition loaded_state :: tm_state where
  "loaded_state =
     \<lparr>accounts = account_array [acct_a, acct_b], currentIndex = 0, lastRefreshTime = 1700000000000,
      console = [LogLoaded 2], tick = 2\<rparr>"

definition world_denied :: world where
  "world_denied = test_world [acct_a, acct_b] (Some ''id'') (NotOk (Some ''invalid_grant''))"

definition after_first_call :: tm_state where
  "after_first_call =
     \<lparr>accounts = account_array [acct_a, acct_b], currentIndex = 2, lastRefreshTime = 1700000000000,
      console = [LogLoaded 2,
        LogExpiring ''a@example.com'', ErrRefreshFailed ''a@example.com'' ''invalid_grant''],
      tick = 7\<rparr>"

definition after_second_call :: tm_state where
  "after_second_call =
     \<lparr>accounts = account_array [acct_a, acct_b], currentIndex = 4, lastRefreshTime = 1700000000000,
      console = [LogLoaded 2,
        LogExpiring ''a@example.com'', ErrRefreshFailed ''a@example.com'' ''invalid_grant'',
        LogExpiring ''a@example.com'', ErrRefreshFailed ''a@example.com'' ''invalid_grant''],
      tick = 12\<rparr>"

definition acct_c :: Account where
  "acct_c = mk_account ''c'' (Some ''FREE'') None 1000"

definition world_all_denied :: world where
  "world_all_denied = test_world [acct_a, acct_c] (Some ''id'') (NotOk (Some ''invalid_grant''))"

definition world_granted :: world where
  "world_granted = test_world [acct_a, acct_b] (Some ''id'') (OkData ''ya29.new'' 3599)"

definition acct_a_refreshed :: Account where
  "acct_a_refreshed =
     acct_a\<lparr>token := (token acct_a)
       \<lparr>access_token := ''ya29.new'', expires_in := 3599, expiry_timestamp := 1700003599\<rparr>\<rparr>"

definition after_granted_first :: tm_state where
  "after_granted_first =
     \<lparr>accounts = account_array [acct_a_refreshed, acct_b], currentIndex = 1,
      lastRefreshTime = 1700000000000,
      console = [LogLoaded 2, LogExpiring ''a@example.com'', LogRefreshed ''a@example.com''],
      tick = 6\<rparr>"

definition after_granted_calls :: tm_state where
  "after_granted_calls =
     \<lparr>accounts = account_array [acct_a_refreshed, acct_b], currentIndex = 2,
      lastRefreshTime = 1700000000000,
      console = [LogLoaded 2, LogExpiring ''a@example.com'', LogRefreshed ''a@example.com''],
      tick = 8\<rparr>"

text \<open>
  An account list whose first element is a disabled account with a token that is not
  near expiry and whose second element is \<^verbatim>\<open>null\<close>, and the states the first two
  calls of \<^verbatim>\<open>getToken\<close> leave with it.
\<close>

definition acct_d :: Account where
  "acct_d = mk_account ''d'' (Some ''PRO'') (Some True) 1800000000"

definition world_null_element :: world where
  "world_null_element =
     \<lparr>date_now = (\<lambda>_. 1700000000000),
      env_ACCOUNTS_JSON = (\<lambda>_. Parsed (ArrayValue [Some acct_d, None])),
      env_GOOGLE_CLIENT_ID = Some ''id'',
      env_GOOGLE_CLIENT_SECRET = Some ''id'',
      oauth_fetch = (\<lambda>_ _. FetchThrows)\<rparr>"

definition null_element_first :: tm_state where
  "null_element_first =
     \<lparr>accounts = ArrayValue [Some acct_d, None], currentIndex = 1,
      lastRefreshTime = 1700000000000, console = [ErrLoadFailed], tick = 3\<rparr>"

definition null_element_second :: tm_state where
  "null_element_second =
     \<lparr>accounts = ArrayValue [Some acct_d, None], currentIndex = 2,
      lastRefreshTime = 1700000000000, console = [ErrLoadFailed], tick = 5\<rparr>"



definition text_chunk :: "string \<Rightarrow> GeminiResponse" where
  "text_chunk t =
     \<lparr>candidates = Some [\<lparr>content = Some \<lparr>parts = Some [\<lparr>part_text = Some t\<rparr>]\<rparr>,
                           finishReason = None\<rparr>],
      usageMetadata = None\<rparr>"

definition finish_chunk :: "string \<Rightarrow> int \<Rightarrow> GeminiResponse" where
  "finish_chunk reason n =
     \<lparr>candidates = Some [\<lparr>content = None, finishReason = Some reason\<rparr>],
      usageMetadata = Some \<lparr>promptTokenCount = Some 5, candidatesTokenCount = Some n,
                            totalTokenCount = Some (5 + n)\<rparr>\<rparr>"

definition payload_hello :: string where
  \<open>payload_hello = ''{"candidates":[{"content":{"parts":[{"text":"Hello"}]}}]}''\<close>

definition payload_world :: string where
  \<open>payload_world = ''{"candidates":[{"content":{"parts":[{"text":" world"}]}}]}''\<close>

definition payload_finish :: string where
  \<open>payload_finish =
     ''{"candidates":[{"finishReason":"STOP"}],"usageMetadata":{"promptTokenCount":5,"candidatesTokenCount":2,"totalTokenCount":7}}''\<close>

definition test_parse :: json_parse where
  "test_parse s =
     (if s = payload_hello then Some (text_chunk ''Hello'')
      else if s = payload_world then Some (text_chunk '' world'')
      else if s = payload_finish then Some (finish_chunk ''STOP'' 2)
      else None)"

text \<open>A chunk with two text parts, as the upstream writes it and as parsed.\<close>

definition two_part_chunk :: GeminiResponse where
  "two_part_chunk =
     \<lparr>candidates =
        Some [\<lparr>content = Some \<lparr>parts = Some [\<lparr>part_text = Some ''Hello''\<rparr>,
                                               \<lparr>part_text = Some '' world''\<rparr>]\<rparr>,
               finishReason = None\<rparr>],
      usageMetadata = None\<rparr>"

definition payload_two_parts :: string where
  \<open>payload_two_parts =
     ''{"candidates":[{"content":{"parts":[{"text":"Hello"},{"text":" world"}]}}]}''\<close>

definition parse_two_parts :: json_parse where
  "parse_two_parts s = (if s = payload_two_parts then Some two_part_chunk else None)"

definition blocked_response :: GeminiResponse where
  "blocked_response =
     \<lparr>candidates = None,
      usageMetadata = Some \<lparr>promptTokenCount = Some 10, candidatesTokenCount = None,
                            totalTokenCount = Some 10\<rparr>\<rparr>"

definition ok_auth :: AuthResult where
  "ok_auth = \<lparr>valid = True, auth_error = None\<rparr>"

definition empty_claude_request :: "int ClaudeRequest" where
  "empty_claude_request =
     \<lparr>cr_model = None, cr_messages = None, cr_max_tokens = None, cr_stream = None,
      cr_system = None, cr_temperature = None, cr_top_p = None, cr_stop_sequences = None\<rparr>"

definition empty_chat_request :: "int ChatCompletionRequest" where
  "empty_chat_request =
     \<lparr>cc_model = None, cc_messages = None, cc_stream = None, cc_temperature = None,
      cc_max_tokens = None, cc_top_p = None, cc_stop = None\<rparr>"

section \<open>The pool after a reload\<close>




lemma the_Some_list: "map the (map Some xs) = xs"
  by (induction xs) simp_all

lemma no_null_in_account_list: "None \<notin> set (map Some xs)"
  by (induction xs) simp_all

lemma loadAccounts_account_array:
  "loadAccounts (Parsed (account_array parsed)) st =
     (array_sort tier_compare (filter enabled parsed),
      log_line (LogLoaded (length (array_sort tier_compare (filter enabled parsed))))
        (st\<lparr>accounts := account_array (array_sort tier_compare (filter enabled parsed))\<rparr>))"
  by (simp add: loadAccounts_def account_array_def Let_def no_null_in_account_list
      the_Some_list)






text \<open>
  When parsing the account list throws, \<^verbatim>\<open>loadAccounts\<close> returns the empty list, logs
  the failure and leaves the pool as it was. When the parsed value is \<^verbatim>\<open>null\<close>, an
  object or an array with an element \<^verbatim>\<open>null\<close>, it returns the empty list, logs the
  failure and leaves the parsed value in the pool.
\<close>

lemma loadAccounts_failure:
  "loadAccounts SyntaxError st = ([], st\<lparr>console := console st @ [ErrLoadFailed]\<rparr>)"
  "loadAccounts (Parsed NullValue) st =
     ([], st\<lparr>accounts := NullValue, console := console st @ [ErrLoadFailed]\<rparr>)"
  "loadAccounts (Parsed ObjectValue) st =
     ([], st\<lparr>accounts := ObjectValue, console := console st @ [ErrLoadFailed]\<rparr>)"
  "None \<in> set elements \<Longrightarrow>
   loadAccounts (Parsed (ArrayValue elements)) st =
     ([], st\<lparr>accounts := ArrayValue elements, console := console st @ [ErrLoadFailed]\<rparr>)"
  by (simp_all add: loadAccounts_def log_line_def)

text \<open>
  The state \<open>loaded_state\<close> of the examples is the one the first reload leaves with
  the accounts \<open>acct_a\<close> and \<open>acct_b\<close>.
\<close>

lemma loaded_state_reached:
  "do_reload (test_world [acct_a, acct_b] c f) initial_state = loaded_state"
  by (simp add: do_reload_def test_world_def initial_state_def loaded_state_def
      loadAccounts_account_array Let_def next_tick_def log_line_def array_sort_def enabled_def
      truthy_flag_def acct_a_def acct_b_def mk_account_def tier_compare_def tierPriority_def)

lemmas fixture_defs = test_world_def loaded_state_def acct_a_def acct_b_def mk_account_def
  reload_if_needed_def refreshToken_def next_tick_def log_line_def truthy_str_def Let_def
  account_array_def numeral_2_eq_2 [symmetric]

lemma null_element_first_call:
  "getToken world_null_element initial_state =
     Some (Inr (Some (acct_d, ''at-d'')), null_element_first)"
  by (subst getToken.simps)
     (simp add: world_null_element_def initial_state_def null_element_first_def
        reload_if_needed_def do_reload_def loadAccounts_def next_tick_def log_line_def Let_def
        acct_d_def mk_account_def numeral_2_eq_2 [symmetric])

lemma null_element_second_call:
  "getToken world_null_element null_element_first = Some (Inl TypeError, null_element_second)"
  by (subst getToken.simps)
     (simp add: world_null_element_def null_element_first_def null_element_second_def
        reload_if_needed_def next_tick_def Let_def numeral_2_eq_2 [symmetric])

text \<open>
  C4 fails on the code. A failed reload does not empty the pool. With the account
  list \<^verbatim>\<open>[d, null]\<close>, where \<^verbatim>\<open>d\<close> is a disabled account, the first reload assigns
  the parsed array to the pool before \<^verbatim>\<open>filter\<close> throws at \<^verbatim>\<open>null\<close>; the catch block
  logs, returns the empty list and assigns nothing. The pool is \<^verbatim>\<open>[d, null]\<close>: the
  first call of \<^verbatim>\<open>getToken\<close> returns the disabled account and the second rejects
  with a \<^verbatim>\<open>TypeError\<close>. A parsed \<^verbatim>\<open>null\<close> stays in the pool, and \<^verbatim>\<open>getToken\<close> rejects.
  When parsing throws on a later reload, the pool loaded before stays.
\<close>

theorem loadAccounts_failure_leaves_pool:
  "loadAccounts (Parsed (ArrayValue [Some acct_d, None])) initial_state =
     ([], initial_state\<lparr>accounts := ArrayValue [Some acct_d, None],
                         console := [ErrLoadFailed]\<rparr>) \<and>
   disabled acct_d = Some True \<and>
   getTokens world_null_element 2 initial_state =
     Some ([Inr (Some (acct_d, ''at-d'')), Inl TypeError], null_element_second) \<and>
   accounts (snd (loadAccounts (Parsed NullValue) initial_state)) = NullValue \<and>
   fst (loadAccounts (Parsed NullValue) initial_state) = [] \<and>
   getToken w (snd (loadAccounts (Parsed NullValue) initial_state)) =
     Some (Inl TypeError, snd (loadAccounts (Parsed NullValue) initial_state)) \<and>
   accounts (snd (loadAccounts SyntaxError loaded_state)) = account_array [acct_a, acct_b] \<and>
   fst (loadAccounts SyntaxError loaded_state) = []"
proof -
  have 1: "loadAccounts (Parsed (ArrayValue [Some acct_d, None])) initial_state =
     ([], initial_state\<lparr>accounts := ArrayValue [Some acct_d, None],
                         console := [ErrLoadFailed]\<rparr>)"
    by (simp add: loadAccounts_failure initial_state_def)
  have 2: "disabled acct_d = Some True" by (simp add: acct_d_def mk_account_def)
  have 3: "getTokens world_null_element 2 initial_state =
     Some ([Inr (Some (acct_d, ''at-d'')), Inl TypeError], null_element_second)"
    unfolding numeral_2_eq_2 by (simp add: null_element_first_call null_element_second_call)
  have 4: "getToken w (snd (loadAccounts (Parsed NullValue) initial_state)) =
     Some (Inl TypeError, snd (loadAccounts (Parsed NullValue) initial_state))"
    by (subst getToken.simps) (simp add: loadAccounts_failure reload_if_needed_def)
  have 5: "accounts (snd (loadAccounts SyntaxError loaded_state)) = account_array [acct_a, acct_b]"
    by (simp add: loadAccounts_failure loaded_state_def)
  show ?thesis
    using 1 2 3 4 5 by (simp add: loadAccounts_failure)
qed

section \<open>Refreshing a token\<close>



section \<open>Acquiring a token\<close>

subsection \<open>When every refresh fails\<close>

lemma set_insert_by: "set (insert_by cmp x xs) = insert x (set xs)"
  by (induction xs) auto

lemma set_array_sort: "set (array_sort cmp xs) = set xs"
  by (induction xs) (simp_all add: array_sort_def set_insert_by)

lemma refreshToken_None_unchanged:
  "fst (refreshToken w a st) = None \<Longrightarrow> fst (snd (refreshToken w a st)) = a"
  by (auto simp: refreshToken_def Let_def split: fetch_outcome.splits option.splits if_splits)

lemma do_reload_hopeless:
  assumes "hopeless w"
  shows "\<exists>ys. accounts (do_reload w st) = account_array ys \<and> ys \<noteq> [] \<and>
           (\<forall>a \<in> set ys. expiring_forever w a)"
proof -
  from assms obtain accs where e: "env_ACCOUNTS_JSON w (tick st) = Parsed (account_array accs)"
    and ne: "filter enabled accs \<noteq> []" and ex: "\<forall>a \<in> set accs. expiring_forever w a"
    unfolding hopeless_def by blast
  let ?ys = "array_sort tier_compare (filter enabled accs)"
  have p: "accounts (do_reload w st) = account_array ?ys"
    by (simp add: do_reload_def e loadAccounts_account_array Let_def log_line_def next_tick_def)
  have q: "set ?ys = set (filter enabled accs)"
    by (simp only: set_array_sort)
  from ne have "set (filter enabled accs) \<noteq> {}" by (metis set_empty)
  with q have "?ys \<noteq> []" by auto
  moreover from q ex have "\<forall>a \<in> set ?ys. expiring_forever w a" by auto
  ultimately show ?thesis using p by blast
qed

lemma reload_if_needed_hopeless:
  assumes "hopeless w" and "accounts st = account_array xs"
    and "\<forall>a \<in> set xs. expiring_forever w a"
  shows "\<exists>st1 ys. reload_if_needed w st = Some st1 \<and> accounts st1 = account_array ys \<and>
           ys \<noteq> [] \<and> (\<forall>a \<in> set ys. expiring_forever w a)"
proof (cases "xs = []")
  case True
  then have "reload_if_needed w st = Some (do_reload w st)"
    using assms(2) by (simp add: reload_if_needed_def account_array_def)
  then show ?thesis using do_reload_hopeless [OF assms(1), of st] by simp
next
  case False
  show ?thesis
  proof (cases "date_now w (tick st) - lastRefreshTime st > 5 * 60 * 1000")
    case True
    with False have "reload_if_needed w st = Some (do_reload w (next_tick st))"
      using assms(2) by (simp add: reload_if_needed_def account_array_def)
    then show ?thesis using do_reload_hopeless [OF assms(1), of "next_tick st"] by simp
  next
    case stale: False
    with False have "reload_if_needed w st = Some (next_tick st)"
      using assms(2) by (simp add: reload_if_needed_def account_array_def)
    moreover have "accounts (next_tick st) = account_array xs"
      using assms(2) by (simp add: next_tick_def)
    ultimately show ?thesis using False assms(3) by blast
  qed
qed

lemma getToken_hopeless_aux:
  assumes ret: "getToken w0 st0 = Some r0"
  shows "hopeless w0 \<longrightarrow>
         (\<exists>xs. accounts st0 = account_array xs \<and> (\<forall>a \<in> set xs. expiring_forever w0 a)) \<longrightarrow>
         False"
proof (rule getToken.raw_induct [where P = "\<lambda>w st r.
    hopeless w \<longrightarrow>
    (\<exists>xs. accounts st = account_array xs \<and> (\<forall>a \<in> set xs. expiring_forever w a)) \<longrightarrow> False",
    OF _ ret])
  fix getToken' :: "world \<Rightarrow> tm_state \<Rightarrow> (token_result \<times> tm_state) option"
    and w st r
  assume IH: "\<And>w st r. getToken' w st = Some r \<Longrightarrow>
    hopeless w \<longrightarrow>
    (\<exists>xs. accounts st = account_array xs \<and> (\<forall>a \<in> set xs. expiring_forever w a)) \<longrightarrow> False"
  assume body: "(case reload_if_needed w st of
        None \<Rightarrow> Some (Inl TypeError, st)
      | Some st1 \<Rightarrow>
          (case accounts st1 of
             NullValue \<Rightarrow> Some (Inl TypeError, st1)
           | ObjectValue \<Rightarrow>
               Some (Inl TypeError, next_tick (st1\<lparr>currentIndex := currentIndex st1 + 1\<rparr>))
           | ArrayValue elements \<Rightarrow>
               if length elements = 0 then Some (Inr None, log_line ErrNoAccounts st1)
               else
                 let idx = currentIndex st1 mod length elements;
                     st2 = st1\<lparr>currentIndex := currentIndex st1 + 1\<rparr>;
                     now = date_now w (tick st2) div 1000;
                     st3 = next_tick st2
                 in (case elements ! idx of
                       None \<Rightarrow> Some (Inl TypeError, st3)
                     | Some account \<Rightarrow>
                         if now \<ge> expiry_timestamp (token account) - 300
                         then
                           (case refreshToken w account
                                   (log_line (LogExpiring (email account)) st3) of
                              (refreshed, account', st4) \<Rightarrow>
                                (let st5 = st4\<lparr>accounts :=
                                             ArrayValue (elements[idx := Some account'])\<rparr>
                                 in if truthy_str refreshed
                                    then Some (Inr (Some (account', the refreshed)), st5)
                                    else getToken' w st5))
                         else Some (Inr (Some (account, access_token (token account))),
                                    st3)))) = Some r"
  show "hopeless w \<longrightarrow>
    (\<exists>xs. accounts st = account_array xs \<and> (\<forall>a \<in> set xs. expiring_forever w a)) \<longrightarrow> False"
  proof (intro impI)
    assume h: "hopeless w"
    assume "\<exists>xs. accounts st = account_array xs \<and> (\<forall>a \<in> set xs. expiring_forever w a)"
    then obtain xs where xs: "accounts st = account_array xs"
      and inv: "\<forall>a \<in> set xs. expiring_forever w a" by blast
    from reload_if_needed_hopeless [OF h xs inv]
    obtain st1 ys where r: "reload_if_needed w st = Some st1"
      and a1: "accounts st1 = ArrayValue (map Some ys)" and ne: "ys \<noteq> []"
      and inv1: "\<forall>a \<in> set ys. expiring_forever w a"
      unfolding account_array_def by blast
    define idx where "idx = currentIndex st1 mod length ys"
    define account where "account = ys ! idx"
    define st3 where "st3 = next_tick (st1\<lparr>currentIndex := Suc (currentIndex st1)\<rparr>)"
    define res where "res = refreshToken w account (log_line (LogExpiring (email account)) st3)"
    define st5 where "st5 = (snd (snd res))\<lparr>accounts := account_array ys\<rparr>"
    have idx: "idx < length ys" using ne by (simp add: idx_def)
    then have mem: "account \<in> set ys" by (simp add: account_def)
    have el: "map Some ys ! idx = Some account" using idx by (simp add: account_def)
    from mem inv1 have exp: "expiry_timestamp (token account) - 300 \<le> date_now w k div 1000" for k
      by (simp add: expiring_forever_def)
    have none: "fst res = None" using h by (simp add: hopeless_def res_def)
    then have same: "fst (snd res) = account"
      unfolding res_def by (rule refreshToken_None_unchanged)
    have upd: "(map Some ys)[idx := Some account] = map Some ys"
      using el idx by (metis length_map list_update_id)
    have g: "getToken' w st5 = Some r"
      using body ne exp none
      by (simp add: r a1 Let_def idx_def [symmetric] el st3_def [symmetric]
          res_def [symmetric] case_prod_unfold same upd st5_def account_array_def
          truthy_str_def)
    have "accounts st5 = account_array ys" by (simp add: st5_def)
    with IH [OF g] h inv1 show False by blast
  qed
qed

text \<open>
  C1 fails on the code. When every account of the pool is near expiry and every
  refresh fails, \<^verbatim>\<open>getToken\<close> never returns: it calls itself after each failed
  refresh and nothing counts the calls.
\<close>

theorem getToken_never_returns:
  assumes "hopeless w" and "accounts st = account_array pool"
    and "\<forall>a \<in> set pool. expiring_forever w a"
  shows "getToken w st = None"
proof (cases "getToken w st")
  case None
  then show ?thesis .
next
  case (Some r)
  from getToken_hopeless_aux [OF Some] assms show ?thesis by blast
qed

lemma world_all_denied_hopeless: "hopeless world_all_denied"
  unfolding hopeless_def
proof (intro conjI allI)
  fix a st
  show "fst (refreshToken world_all_denied a st) = None"
    by (simp add: refreshToken_def world_all_denied_def test_world_def)
next
  fix k
  have "filter enabled [acct_a, acct_c] \<noteq> []"
    by (simp add: enabled_def truthy_flag_def acct_a_def mk_account_def)
  moreover have "\<forall>a \<in> set [acct_a, acct_c]. expiring_forever world_all_denied a"
    by (simp add: expiring_forever_def world_all_denied_def test_world_def acct_a_def acct_c_def
        mk_account_def)
  moreover have "env_ACCOUNTS_JSON world_all_denied k = Parsed (account_array [acct_a, acct_c])"
    by (simp add: world_all_denied_def test_world_def)
  ultimately show "\<exists>accs. env_ACCOUNTS_JSON world_all_denied k = Parsed (account_array accs) \<and>
      filter enabled accs \<noteq> [] \<and> (\<forall>a \<in> set accs. expiring_forever world_all_denied a)"
    by blast
qed

text \<open>
  The theorem of C1 on a pool of two accounts with expired tokens and a token
  endpoint that refuses every refresh token: the first call of \<^verbatim>\<open>getToken\<close>
  never returns.
\<close>

theorem getToken_never_returns_witness:
  "getToken world_all_denied initial_state = None"
proof -
  have "accounts initial_state = account_array []"
    by (simp add: initial_state_def account_array_def)
  from getToken_never_returns [OF world_all_denied_hopeless this] show ?thesis by simp
qed

subsection \<open>Rotation\<close>

lemma same_account_refl: "same_account a a"
  by (simp add: same_account_def)

lemma same_account_token: "same_account (a\<lparr>token := t\<rparr>) a"
  by (simp add: same_account_def)

lemma acquires_same_account: "acquires w s (Inr (Some (a, tok))) s' acc \<Longrightarrow> same_account a acc"
  by (auto simp: acquires_def same_account_refl same_account_token split: if_splits)

lemma refreshToken_ok:
  assumes "refresh_ok w"
  shows "\<exists>tok e. oauth_fetch w (tick st) (refresh_token (token a)) = OkData tok e \<and> tok \<noteq> [] \<and>
           refreshToken w a st =
             (Some tok,
              a\<lparr>token := (token a)
                \<lparr>access_token := tok, expires_in := e,
                 expiry_timestamp := date_now w (Suc (tick st)) div 1000 + e\<rparr>\<rparr>,
              log_line (LogRefreshed (email a)) (next_tick (next_tick st)))"
proof -
  from assms obtain tok e where f: "oauth_fetch w (tick st) (refresh_token (token a)) = OkData tok e"
    and t: "tok \<noteq> []" unfolding refresh_ok_def by blast
  from assms have c: "truthy_str (env_GOOGLE_CLIENT_ID w)" "truthy_str (env_GOOGLE_CLIENT_SECRET w)"
    unfolding refresh_ok_def by blast+
  have "refreshToken w a st =
             (Some tok,
              a\<lparr>token := (token a)
                \<lparr>access_token := tok, expires_in := e,
                 expiry_timestamp := date_now w (Suc (tick st)) div 1000 + e\<rparr>\<rparr>,
              log_line (LogRefreshed (email a)) (next_tick (next_tick st)))"
    by (simp add: refreshToken_def c f Let_def next_tick_def)
  with f t show ?thesis by blast
qed

lemma getToken_step:
  assumes pool: "accounts st = account_array p" and ne: "p \<noteq> []"
    and nostale: "date_now w (tick st) - lastRefreshTime st \<le> 5 * 60 * 1000"
    and ok: "refresh_ok w \<or> (\<forall>a \<in> set p. fresh_forever w a)"
  shows "\<exists>a tok st'. acquires w st (Inr (Some (a, tok))) st' (p ! (currentIndex st mod length p)) \<and>
           accounts st' = account_array (p[currentIndex st mod length p := a]) \<and>
           currentIndex st' = Suc (currentIndex st) \<and>
           lastRefreshTime st' = lastRefreshTime st \<and>
           (refresh_ok w \<or> (\<forall>a \<in> set (p[currentIndex st mod length p := a]). fresh_forever w a))"
proof -
  define st1 where "st1 = next_tick st"
  define idx where "idx = currentIndex st mod length p"
  define acc where "acc = p ! idx"
  define st3 where "st3 = next_tick (st1\<lparr>currentIndex := Suc (currentIndex st)\<rparr>)"
  have r: "reload_if_needed w st = Some st1"
    using ne nostale pool by (simp add: reload_if_needed_def st1_def account_array_def)
  have s1: "accounts st1 = ArrayValue (map Some p)" "currentIndex st1 = currentIndex st"
    "lastRefreshTime st1 = lastRefreshTime st" "tick st1 = Suc (tick st)"
    using pool by (simp_all add: st1_def next_tick_def account_array_def)
  have s3: "currentIndex st3 = Suc (currentIndex st)"
    "lastRefreshTime st3 = lastRefreshTime st" "tick st3 = tick st + 2"
    "accounts st3 = account_array p"
    by (simp_all add: st3_def s1 next_tick_def account_array_def)
  have idx: "idx < length p" using ne by (simp add: idx_def)
  have el: "map Some p ! idx = Some acc" using idx by (simp add: acc_def)
  have lu: "p[idx := acc] = p" by (simp add: acc_def)
  show ?thesis
  proof (cases "date_now w (Suc (tick st)) div 1000 < expiry_timestamp (token acc) - 300")
    case True
    have "getToken w st = Some (Inr (Some (acc, access_token (token acc))), st3)"
      using True ne
      by (subst getToken.simps)
         (simp add: r s1 Let_def idx_def [symmetric] el st3_def)
    then have "acquires w st (Inr (Some (acc, access_token (token acc)))) st3 acc"
      using True by (simp add: acquires_def)
    then show ?thesis
      using ok unfolding idx_def [symmetric] acc_def [symmetric]
      by (intro exI [of _ acc] exI [of _ "access_token (token acc)"] exI [of _ st3])
         (simp add: s3 lu)
  next
    case False
    have "acc \<in> set p" using idx by (simp add: acc_def)
    with False ok have rok: "refresh_ok w"
      unfolding fresh_forever_def by (meson not_less)
    define st3' where "st3' = log_line (LogExpiring (email acc)) st3"
    have t3': "tick st3' = tick st + 2" by (simp add: st3'_def log_line_def s3)
    from refreshToken_ok [OF rok, of st3' acc]
    obtain tok e where f: "oauth_fetch w (tick st + 2) (refresh_token (token acc)) = OkData tok e"
      and tok: "tok \<noteq> []"
      and rt: "refreshToken w acc st3' =
             (Some tok,
              acc\<lparr>token := (token acc)
                \<lparr>access_token := tok, expires_in := e,
                 expiry_timestamp := date_now w (Suc (tick st + 2)) div 1000 + e\<rparr>\<rparr>,
              log_line (LogRefreshed (email acc)) (next_tick (next_tick st3')))"
      unfolding t3' by blast
    define a where "a = acc\<lparr>token := (token acc)
                \<lparr>access_token := tok, expires_in := e,
                 expiry_timestamp := date_now w (tick st + 3) div 1000 + e\<rparr>\<rparr>"
    define st5 where "st5 = (log_line (LogRefreshed (email acc)) (next_tick (next_tick st3')))
        \<lparr>accounts := ArrayValue ((map Some p)[idx := Some a])\<rparr>"
    have n3: "tick st + 3 = Suc (Suc (Suc (tick st)))" by simp
    have g: "getToken w st = Some (Inr (Some (a, tok)), st5)"
      using False ne
      by (subst getToken.simps)
         (simp add: r s1 Let_def idx_def [symmetric] el st3_def [symmetric]
            st3'_def [symmetric] rt a_def n3 tok truthy_str_def st5_def)
    have acq: "acquires w st (Inr (Some (a, tok))) st5 acc"
      using False g f by (auto simp: acquires_def a_def)
    have s5: "accounts st5 = account_array (p[idx := a])"
      "currentIndex st5 = Suc (currentIndex st)" "lastRefreshTime st5 = lastRefreshTime st"
      by (simp_all add: st5_def account_array_def map_update log_line_def next_tick_def
          st3'_def s3)
    show ?thesis
      using acq s5 rok unfolding idx_def [symmetric] acc_def [symmetric] by blast
  qed
qed


lemma rotation_index_inj:
  fixes c :: nat
  assumes "j < N" "m < N" "(c + j) mod N = (c + m) mod N"
  shows "j = m"
proof -
  have less: "False" if "x < y" "y < N" "(c + y) mod N = (c + x) mod N" for x y
  proof -
    from that(1) have "c + x \<le> c + y" by simp
    with that(3) have "N dvd (c + y) - (c + x)"
      by (simp add: mod_eq_dvd_iff_nat)
    then have "N dvd y - x" by simp
    moreover have "0 < y - x" "y - x < N" using that by simp_all
    ultimately show False by (meson nat_dvd_not_less)
  qed
  show ?thesis
  proof (rule ccontr)
    assume "j \<noteq> m"
    then consider "j < m" | "m < j" by linarith
    then show False
      using less [of j m] less [of m j] assms by (cases) simp_all
  qed
qed

lemma getTokens_cycle:
  assumes nostale: "\<forall>k. date_now w k - L \<le> 5 * 60 * 1000" and p0: "pool \<noteq> []"
  shows "accounts st = account_array p \<Longrightarrow> length p = length pool \<Longrightarrow>
     lastRefreshTime st = L \<Longrightarrow> currentIndex st = c + m \<Longrightarrow> m + n \<le> length pool \<Longrightarrow>
     (\<forall>j. m \<le> j \<and> j < length pool \<longrightarrow>
        p ! ((c + j) mod length pool) = pool ! ((c + j) mod length pool)) \<Longrightarrow>
     refresh_ok w \<or> (\<forall>a \<in> set p. fresh_forever w a) \<Longrightarrow>
     \<exists>rs ss. getTokens w n st = Some (rs, ss ! n) \<and> length rs = n \<and> length ss = Suc n \<and>
       ss ! 0 = st \<and> currentIndex (ss ! n) = c + m + n \<and>
       (\<forall>k < n. acquires w (ss ! k) (rs ! k) (ss ! Suc k)
                  (pool ! ((c + m + k) mod length pool)))"
proof (induction n arbitrary: st p m)
  case 0
  have "getTokens w 0 st = Some ([], [st] ! 0) \<and> length ([] :: token_result list) = 0 \<and>
      length [st] = Suc 0 \<and> [st] ! 0 = st \<and> currentIndex ([st] ! 0) = c + m + 0"
    using "0.prems"(4) by simp
  then show ?case by blast
next
  case (Suc n)
  let ?N = "length pool"
  let ?idx = "(c + m) mod ?N"
  have ne: "p \<noteq> []" using p0 Suc.prems(2) by auto
  have fresh: "date_now w (tick st) - lastRefreshTime st \<le> 5 * 60 * 1000"
    using nostale Suc.prems(3) by simp
  have m: "m < ?N" using Suc.prems(5) by simp
  have cur: "currentIndex st mod length p = ?idx"
    by (simp add: Suc.prems(2,4))
  from getToken_step [OF Suc.prems(1) ne fresh Suc.prems(7)]
  obtain a tok st1 where acq: "acquires w st (Inr (Some (a, tok))) st1 (p ! ?idx)"
    and acc1: "accounts st1 = account_array (p[?idx := a])"
    and ci1: "currentIndex st1 = Suc (currentIndex st)"
    and lr1: "lastRefreshTime st1 = lastRefreshTime st"
    and ok1: "refresh_ok w \<or> (\<forall>a \<in> set (p[?idx := a]). fresh_forever w a)"
    unfolding cur by blast
  have here: "p ! ?idx = pool ! ?idx"
    using Suc.prems(6) m by simp
  have inv1: "\<forall>j. Suc m \<le> j \<and> j < ?N \<longrightarrow>
        (p[?idx := a]) ! ((c + j) mod ?N) = pool ! ((c + j) mod ?N)"
  proof (intro allI impI)
    fix j assume j: "Suc m \<le> j \<and> j < ?N"
    then have "(c + j) mod ?N \<noteq> ?idx"
      using rotation_index_inj [of j ?N m c] m by auto
    then have "(p[?idx := a]) ! ((c + j) mod ?N) = p ! ((c + j) mod ?N)" by simp
    with Suc.prems(6) j show "(p[?idx := a]) ! ((c + j) mod ?N) = pool ! ((c + j) mod ?N)"
      by simp
  qed
  have len1: "length (p[?idx := a]) = ?N" using Suc.prems(2) by simp
  have lr: "lastRefreshTime st1 = L" using lr1 Suc.prems(3) by simp
  have c1: "currentIndex st1 = c + Suc m" using ci1 Suc.prems(4) by simp
  have le1: "Suc m + n \<le> ?N" using Suc.prems(5) by simp
  from Suc.IH [OF acc1 len1 lr c1 le1 inv1 ok1]
  obtain rs ss where gs: "getTokens w n st1 = Some (rs, ss ! n)" and lrs: "length rs = n"
    and lss: "length ss = Suc n" and ss0: "ss ! 0 = st1"
    and ci: "currentIndex (ss ! n) = c + Suc m + n"
    and each: "\<forall>k < n. acquires w (ss ! k) (rs ! k) (ss ! Suc k)
                  (pool ! ((c + Suc m + k) mod ?N))"
    by blast
  let ?rs = "Inr (Some (a, tok)) # rs"
  let ?ss = "st # ss"
  have g: "getToken w st = Some (Inr (Some (a, tok)), st1)"
    using acq by (simp add: acquires_def)
  have 1: "getTokens w (Suc n) st = Some (?rs, ?ss ! Suc n)"
    using g gs by simp
  have 2: "acquires w (?ss ! k) (?rs ! k) (?ss ! Suc k) (pool ! ((c + m + k) mod ?N))"
    if "k < Suc n" for k
  proof (cases k)
    case 0
    with acq here ss0 show ?thesis by simp
  next
    case (Suc i)
    with that each show ?thesis by simp
  qed
  have "getTokens w (Suc n) st = Some (?rs, ?ss ! Suc n) \<and> length ?rs = Suc n \<and>
      length ?ss = Suc (Suc n) \<and> ?ss ! 0 = st \<and> currentIndex (?ss ! Suc n) = c + m + Suc n \<and>
      (\<forall>k < Suc n. acquires w (?ss ! k) (?rs ! k) (?ss ! Suc k)
                  (pool ! ((c + m + k) mod ?N)))"
    using 1 2 lrs lss ci by simp
  then show ?case by blast
qed

text \<open>
  C2, as the code has it. Take a pool of \<open>N\<close> accounts, a clock that never makes the
  last reload stale, and no refresh that fails (either the endpoint always grants a
  token or no account is ever near expiry). Then \<open>N\<close> calls of \<^verbatim>\<open>getToken\<close> return
  and the cursor advances by \<open>N\<close>. Call \<open>k\<close>, made in the state \<open>ss ! k\<close> that call
  \<open>k - 1\<close> left, selects the account \<open>acc\<close> at index \<open>(cursor + k) mod N\<close> of the pool.
  When the clock shows \<open>acc\<close> more than 300 seconds from expiry, the call returns
  \<open>acc\<close> and its access token. Otherwise it returns \<open>acc\<close> with the access token and
  lifetime the endpoint grants and the expiry computed from the clock, together with
  the granted token. The accounts returned are the pool rotated by the cursor, each
  account once.
\<close>

theorem getTokens_round_robin:
  assumes "accounts st = account_array pool" and "pool \<noteq> []"
    and "\<forall>k. date_now w k - lastRefreshTime st \<le> 5 * 60 * 1000"
    and "refresh_ok w \<or> (\<forall>a \<in> set pool. fresh_forever w a)"
  shows "\<exists>rs ss.
      getTokens w (length pool) st = Some (rs, ss ! length pool) \<and>
      length rs = length pool \<and> length ss = Suc (length pool) \<and> ss ! 0 = st \<and>
      currentIndex (ss ! length pool) = currentIndex st + length pool \<and>
      list_all2 (\<lambda>r b. \<exists>a tok. r = Inr (Some (a, tok)) \<and> same_account a b)
        rs (rotate (currentIndex st) pool) \<and>
      (\<forall>k < length pool. \<exists>a tok.
         getToken w (ss ! k) = Some (rs ! k, ss ! Suc k) \<and>
         rs ! k = Inr (Some (a, tok)) \<and>
         (let acc = pool ! ((currentIndex st + k) mod length pool) in
          if date_now w (Suc (tick (ss ! k))) div 1000 < expiry_timestamp (token acc) - 300
          then a = acc \<and> tok = access_token (token acc)
          else \<exists>e. oauth_fetch w (tick (ss ! k) + 2) (refresh_token (token acc)) = OkData tok e \<and>
                 a = acc\<lparr>token := (token acc)
                   \<lparr>access_token := tok, expires_in := e,
                    expiry_timestamp := date_now w (tick (ss ! k) + 3) div 1000 + e\<rparr>\<rparr>))"
proof -
  let ?N = "length pool"
  let ?c = "currentIndex st"
  have inv: "\<forall>j. 0 \<le> j \<and> j < ?N \<longrightarrow> pool ! ((?c + j) mod ?N) = pool ! ((?c + j) mod ?N)"
    by simp
  from getTokens_cycle [OF assms(3) assms(2) assms(1) refl refl, of ?c 0 ?N, OF _ _ inv assms(4)]
  obtain rs ss where gs: "getTokens w ?N st = Some (rs, ss ! ?N)"
    and lrs: "length rs = ?N" and lss: "length ss = Suc ?N" and ss0: "ss ! 0 = st"
    and ci: "currentIndex (ss ! ?N) = ?c + ?N"
    and each: "\<forall>k < ?N. acquires w (ss ! k) (rs ! k) (ss ! Suc k) (pool ! ((?c + k) mod ?N))"
    by auto
  have rot: "list_all2 (\<lambda>r b. \<exists>a tok. r = Inr (Some (a, tok)) \<and> same_account a b)
        rs (rotate ?c pool)"
    unfolding list_all2_conv_all_nth
  proof (intro conjI allI impI)
    show "length rs = length (rotate ?c pool)" using lrs by simp
  next
    fix k assume "k < length rs"
    then have k: "k < ?N" using lrs by simp
    with each have a: "acquires w (ss ! k) (rs ! k) (ss ! Suc k) (pool ! ((?c + k) mod ?N))"
      by blast
    then obtain a tok where r: "rs ! k = Inr (Some (a, tok))"
      unfolding acquires_def by blast
    with a have "same_account a (pool ! ((?c + k) mod ?N))"
      using acquires_same_account by metis
    with r k show "\<exists>a tok. rs ! k = Inr (Some (a, tok)) \<and> same_account a (rotate ?c pool ! k)"
      by (simp add: nth_rotate)
  qed
  have steps: "\<forall>k < ?N. \<exists>a tok.
         getToken w (ss ! k) = Some (rs ! k, ss ! Suc k) \<and>
         rs ! k = Inr (Some (a, tok)) \<and>
         (let acc = pool ! ((?c + k) mod ?N) in
          if date_now w (Suc (tick (ss ! k))) div 1000 < expiry_timestamp (token acc) - 300
          then a = acc \<and> tok = access_token (token acc)
          else \<exists>e. oauth_fetch w (tick (ss ! k) + 2) (refresh_token (token acc)) = OkData tok e \<and>
                 a = acc\<lparr>token := (token acc)
                   \<lparr>access_token := tok, expires_in := e,
                    expiry_timestamp := date_now w (tick (ss ! k) + 3) div 1000 + e\<rparr>\<rparr>)"
    using each unfolding acquires_def Let_def by blast
  from gs lrs lss ss0 ci rot steps show ?thesis by blast
qed

lemma granted_first_call:
  "getToken world_granted loaded_state =
     Some (Inr (Some (acct_a_refreshed, ''ya29.new'')), after_granted_first)"
  by (subst getToken.simps)
     (simp add: world_granted_def acct_a_refreshed_def after_granted_first_def fixture_defs)

lemma granted_second_call:
  "getToken world_granted after_granted_first =
     Some (Inr (Some (acct_b, ''at-b'')), after_granted_calls)"
  by (subst getToken.simps)
     (simp add: world_granted_def acct_a_refreshed_def after_granted_first_def
        after_granted_calls_def fixture_defs)

text \<open>
  The theorem of C2 on the pool of two accounts, the first with an expired token,
  and an endpoint that grants every refresh: the first call returns the first account
  with the granted token and the new expiry, the second call the second account as
  it is.
\<close>

theorem getTokens_round_robin_witness:
  "getTokens world_granted 2 loaded_state =
     Some ([Inr (Some (acct_a_refreshed, ''ya29.new'')), Inr (Some (acct_b, ''at-b''))],
           after_granted_calls) \<and>
   (\<exists>rs ss. getTokens world_granted 2 loaded_state = Some (rs, ss ! 2) \<and> length rs = 2 \<and>
      currentIndex (ss ! 2) = 2 \<and>
      list_all2 (\<lambda>r b. \<exists>a tok. r = Inr (Some (a, tok)) \<and> same_account a b) rs
        [acct_a, acct_b])"
proof -
  have 0: "accounts loaded_state = account_array [acct_a, acct_b]"
    by (simp add: loaded_state_def)
  have 1: "[acct_a, acct_b] \<noteq> []" by simp
  have 2: "\<forall>k. date_now world_granted k - lastRefreshTime loaded_state \<le> 5 * 60 * 1000"
    by (simp add: world_granted_def test_world_def loaded_state_def)
  have 3: "refresh_ok world_granted \<or>
      (\<forall>a \<in> set [acct_a, acct_b]. fresh_forever world_granted a)"
    by (simp add: refresh_ok_def world_granted_def test_world_def truthy_str_def)
  have len: "length [acct_a, acct_b] = 2"
    and cur: "currentIndex loaded_state = 0"
    and rot: "rotate 0 [acct_a, acct_b] = [acct_a, acct_b]"
    by (simp_all add: loaded_state_def)
  from getTokens_round_robin [OF 0 1 2 3]
  obtain rs ss where "getTokens world_granted (length [acct_a, acct_b]) loaded_state =
        Some (rs, ss ! length [acct_a, acct_b])"
    and "length rs = length [acct_a, acct_b]"
    and "currentIndex (ss ! length [acct_a, acct_b]) =
           currentIndex loaded_state + length [acct_a, acct_b]"
    and "list_all2 (\<lambda>r b. \<exists>a tok. r = Inr (Some (a, tok)) \<and> same_account a b) rs
           (rotate (currentIndex loaded_state) [acct_a, acct_b])"
    by blast
  then have "getTokens world_granted 2 loaded_state = Some (rs, ss ! 2) \<and> length rs = 2 \<and>
      currentIndex (ss ! 2) = 2 \<and>
      list_all2 (\<lambda>r b. \<exists>a tok. r = Inr (Some (a, tok)) \<and> same_account a b) rs [acct_a, acct_b]"
    by (simp only: len cur rot add_0)
  then have ex: "\<exists>rs ss. getTokens world_granted 2 loaded_state = Some (rs, ss ! 2) \<and>
      length rs = 2 \<and> currentIndex (ss ! 2) = 2 \<and>
      list_all2 (\<lambda>r b. \<exists>a tok. r = Inr (Some (a, tok)) \<and> same_account a b) rs [acct_a, acct_b]"
    by blast
  have run: "getTokens world_granted 2 loaded_state =
     Some ([Inr (Some (acct_a_refreshed, ''ya29.new'')), Inr (Some (acct_b, ''at-b''))],
           after_granted_calls)"
    unfolding numeral_2_eq_2 by (simp add: granted_first_call granted_second_call)
  from run ex show ?thesis ..
qed

lemma denied_first_call:
  "getToken world_denied loaded_state = Some (Inr (Some (acct_b, ''at-b'')), after_first_call)"
  apply (subst getToken.simps)
  apply (simp add: world_denied_def after_first_call_def fixture_defs)
  apply (subst getToken.simps)
  apply (simp add: fixture_defs)
  done

lemma denied_second_call:
  "getToken world_denied after_first_call = Some (Inr (Some (acct_b, ''at-b'')), after_second_call)"
  apply (subst getToken.simps)
  apply (simp add: world_denied_def after_first_call_def after_second_call_def fixture_defs)
  apply (subst getToken.simps)
  apply (simp add: fixture_defs)
  done

text \<open>
  C2 as stated fails: no reload happens, the refresh of the first account is
  refused, and two calls of \<^verbatim>\<open>getToken\<close> both return the second account.
\<close>

theorem getTokens_skips_failed_account:
  "getTokens world_denied 2 loaded_state =
     Some ([Inr (Some (acct_b, ''at-b'')), Inr (Some (acct_b, ''at-b''))], after_second_call)"
  unfolding numeral_2_eq_2 by (simp add: denied_first_call denied_second_call)

section \<open>Response translators\<close>

text \<open>
  For an upstream response without a candidate, both translators return a response,
  not an error. \<^verbatim>\<open>convertResponse\<close> returns no choice and usage counters that are
  all zero. \<^verbatim>\<open>convertGeminiToClaude\<close> returns one text block with the empty text and
  the stop reason \<^verbatim>\<open>end_turn\<close>; its usage counters are those of the upstream usage
  metadata, zero where the metadata or the counter is absent.
\<close>

lemma no_candidate_translations:
  assumes "candidates r = None \<or> candidates r = Some []"
  shows "oa_choices (convertResponse r model) = [] \<and>
         oa_usage (convertResponse r model) =
           \<lparr>prompt_tokens = 0, completion_tokens = 0, total_tokens = 0\<rparr> \<and>
         cl_content (convertGeminiToClaude r model) = [\<lparr>block_type = ''text'', block_text = []\<rparr>] \<and>
         cl_stop_reason (convertGeminiToClaude r model) = ''end_turn'' \<and>
         cl_usage (convertGeminiToClaude r model) =
           \<lparr>input_tokens = usage_count promptTokenCount r,
            output_tokens = usage_count candidatesTokenCount r\<rparr>"
proof -
  from assms have "first_candidate r = None"
    by (auto simp: first_candidate_def)
  then show ?thesis
    by (simp add: convertResponse_def convertGeminiToClaude_def Let_def)
qed

text \<open>
  C8 fails on the code. For the upstream response with no candidate, a prompt token
  count of 10 and a total token count of 10, both translators return a response with
  empty content. \<^verbatim>\<open>convertResponse\<close> returns usage counters that are all zero;
  \<^verbatim>\<open>convertGeminiToClaude\<close> has no branch for a missing candidate and reports 10
  input tokens.
\<close>

theorem claude_no_candidate_usage:
  "first_candidate blocked_response = None \<and>
   oa_choices (convertResponse blocked_response model) = [] \<and>
   oa_usage (convertResponse blocked_response model) =
     \<lparr>prompt_tokens = 0, completion_tokens = 0, total_tokens = 0\<rparr> \<and>
   cl_content (convertGeminiToClaude blocked_response model) =
     [\<lparr>block_type = ''text'', block_text = []\<rparr>] \<and>
   cl_stop_reason (convertGeminiToClaude blocked_response model) = ''end_turn'' \<and>
   cl_usage (convertGeminiToClaude blocked_response model) =
     \<lparr>input_tokens = 10, output_tokens = 0\<rparr>"
  by (simp add: convertResponse_def convertGeminiToClaude_def blocked_response_def
      first_candidate_def Let_def usage_count_def or_zero_def)

section \<open>Streaming re-encoders\<close>

subsection \<open>The finish reason\<close>

text \<open>
  C6 fails on the code. The response translators map the upstream finish reason,
  but the stream loops do not read it: for a chunk with a finish signal, whatever
  the reason, the chat-completion stream ends its events with the finish reason
  \<^verbatim>\<open>stop\<close> and the messages stream with the stop reason \<^verbatim>\<open>end_turn\<close>.
\<close>

theorem stream_finish_reason_fixed:
  assumes "has_finish g"
  shows "(\<exists>evs. openai_chunk model g = evs @ [Chunk model None (Some ''stop'')]) \<and>
         (\<exists>evs. claude_chunk model started g =
            evs @ [ContentBlockStop,
                   MessageDelta ''end_turn'' (usage_count candidatesTokenCount g),
                   MessageStop])"
  using assms by (simp add: openai_chunk_def claude_chunk_def Let_def)

lemma finish_chunk_facts:
  "has_finish (finish_chunk ''MAX_TOKENS'' n)"
  "first_part_text (finish_chunk r n) = []"
  "usage_count candidatesTokenCount (finish_chunk r n) = n"
  by (simp_all add: has_finish_def first_part_text_def first_candidate_def finish_chunk_def
      usage_count_def or_zero_def)

text \<open>
  The theorem of C6 at a chunk whose finish reason is \<^verbatim>\<open>MAX_TOKENS\<close>: the response
  translators give \<^verbatim>\<open>length\<close> and \<^verbatim>\<open>max_tokens\<close>, the stream loops \<^verbatim>\<open>stop\<close> and
  \<^verbatim>\<open>end_turn\<close>.
\<close>

theorem stream_finish_reason_fixed_witness:
  "map choice_finish_reason (oa_choices (convertResponse (finish_chunk ''MAX_TOKENS'' 7) ''gpt-4''))
     = [''length''] \<and>
   cl_stop_reason (convertGeminiToClaude (finish_chunk ''MAX_TOKENS'' 7) ''gpt-4'') = ''max_tokens'' \<and>
   openai_chunk ''gpt-4'' (finish_chunk ''MAX_TOKENS'' 7) = [Chunk ''gpt-4'' None (Some ''stop'')] \<and>
   claude_chunk ''gpt-4'' True (finish_chunk ''MAX_TOKENS'' 7) =
     [ContentBlockStop, MessageDelta ''end_turn'' 7, MessageStop]"
  using stream_finish_reason_fixed [OF finish_chunk_facts(1), of "''gpt-4''" 7 True]
  by (simp add: convertResponse_def convertGeminiToClaude_def openai_chunk_def claude_chunk_def
      finish_chunk_facts Let_def)
     (simp add: first_candidate_def finish_chunk_def)

subsection \<open>Buffering\<close>

lemma split_newline_nonempty: "split_newline xs \<noteq> []"
  by (induction xs) (auto split: list.splits)

lemma split_newline_line:
  "CHR 0x0A \<notin> set xs \<Longrightarrow> split_newline (xs @ CHR 0x0A # ys) = xs # split_newline ys"
  by (induction xs) auto

lemma split_newline_no_newline: "CHR 0x0A \<notin> set xs \<Longrightarrow> split_newline xs = [xs]"
  by (induction xs) auto

lemma last_split_no_newline: "CHR 0x0A \<notin> set (last (split_newline xs))"
  by (induction xs) (auto split: list.splits)

lemma split_newline_append:
  "butlast (split_newline (xs @ ys)) =
     butlast (split_newline xs) @ butlast (split_newline (last (split_newline xs) @ ys)) \<and>
   last (split_newline (xs @ ys)) = last (split_newline (last (split_newline xs) @ ys))"
proof (induction xs rule: length_induct)
  case (1 xs)
  show ?case
  proof (cases "CHR 0x0A \<in> set xs")
    case False
    then show ?thesis by (simp add: split_newline_no_newline)
  next
    case True
    then obtain l r where xs: "xs = l @ CHR 0x0A # r" and l: "CHR 0x0A \<notin> set l"
      by (meson split_list_first)
    have ih: "butlast (split_newline (r @ ys)) =
        butlast (split_newline r) @ butlast (split_newline (last (split_newline r) @ ys)) \<and>
      last (split_newline (r @ ys)) = last (split_newline (last (split_newline r) @ ys))"
      using 1 xs by simp
    have a: "split_newline xs = l # split_newline r"
      unfolding xs using l by (rule split_newline_line)
    have b: "split_newline (xs @ ys) = l # split_newline (r @ ys)"
      using split_newline_line [OF l, of "r @ ys"] by (simp add: xs)
    show ?thesis
      using ih by (simp add: a b split_newline_nonempty)
  qed
qed

lemma claude_line_buffer:
  "claude_line parse model (st\<lparr>cl_buffer := b\<rparr>) line =
     (claude_line parse model st line)\<lparr>cl_buffer := b\<rparr>"
  by (simp add: claude_line_def Let_def split: option.splits)

lemma claude_lines_buffer:
  "foldl (claude_line parse model) (st\<lparr>cl_buffer := b\<rparr>) ls =
     (foldl (claude_line parse model) st ls)\<lparr>cl_buffer := b\<rparr>"
  by (induction ls arbitrary: st) (simp_all add: claude_line_buffer)

lemma claude_reads_lines:
  "CHR 0x0A \<notin> set (cl_buffer st) \<Longrightarrow>
   foldl (claude_read parse model) st reads =
     foldl (claude_line parse model)
       (st\<lparr>cl_buffer := last (split_newline (cl_buffer st @ concat reads))\<rparr>)
       (butlast (split_newline (cl_buffer st @ concat reads)))"
proof (induction reads arbitrary: st)
  case Nil
  then show ?case by (simp add: split_newline_no_newline)
next
  case (Cons d ds)
  let ?b = "cl_buffer st"
  let ?st1 = "claude_read parse model st d"
  have st1: "?st1 = (foldl (claude_line parse model) st (butlast (split_newline (?b @ d))))
      \<lparr>cl_buffer := last (split_newline (?b @ d))\<rparr>"
    by (simp add: claude_read_def Let_def claude_lines_buffer)
  then have buf1: "cl_buffer ?st1 = last (split_newline (?b @ d))" by simp
  then have "CHR 0x0A \<notin> set (cl_buffer ?st1)" by (simp add: last_split_no_newline)
  from Cons.IH [OF this]
  have "foldl (claude_read parse model) ?st1 ds =
     foldl (claude_line parse model)
       (?st1\<lparr>cl_buffer := last (split_newline (cl_buffer ?st1 @ concat ds))\<rparr>)
       (butlast (split_newline (cl_buffer ?st1 @ concat ds)))" .
  also have "\<dots> = foldl (claude_line parse model)
       ((foldl (claude_line parse model) st (butlast (split_newline (?b @ d))))
          \<lparr>cl_buffer := last (split_newline (last (split_newline (?b @ d)) @ concat ds))\<rparr>)
       (butlast (split_newline (last (split_newline (?b @ d)) @ concat ds)))"
    by (simp only: buf1) (simp add: st1)
  also have "\<dots> = foldl (claude_line parse model)
       (st\<lparr>cl_buffer := last (split_newline ((?b @ d) @ concat ds))\<rparr>)
       (butlast (split_newline ((?b @ d) @ concat ds)))"
    using split_newline_append [of "?b @ d" "concat ds"]
    by (simp add: claude_lines_buffer)
  finally show ?case by simp
qed

lemma openai_line_buffer:
  "openai_line parse model (st\<lparr>oa_buffer := b\<rparr>) line =
     (openai_line parse model st line)\<lparr>oa_buffer := b\<rparr>"
  by (simp add: openai_line_def Let_def split: option.splits)

lemma openai_lines_buffer:
  "foldl (openai_line parse model) (st\<lparr>oa_buffer := b\<rparr>) ls =
     (foldl (openai_line parse model) st ls)\<lparr>oa_buffer := b\<rparr>"
  by (induction ls arbitrary: st) (simp_all add: openai_line_buffer)

lemma openai_reads_lines:
  "CHR 0x0A \<notin> set (oa_buffer st) \<Longrightarrow>
   foldl (openai_read parse model) st reads =
     foldl (openai_line parse model)
       (st\<lparr>oa_buffer := last (split_newline (oa_buffer st @ concat reads))\<rparr>)
       (butlast (split_newline (oa_buffer st @ concat reads)))"
proof (induction reads arbitrary: st)
  case Nil
  then show ?case by (simp add: split_newline_no_newline)
next
  case (Cons d ds)
  let ?b = "oa_buffer st"
  let ?st1 = "openai_read parse model st d"
  have st1: "?st1 = (foldl (openai_line parse model) st (butlast (split_newline (?b @ d))))
      \<lparr>oa_buffer := last (split_newline (?b @ d))\<rparr>"
    by (simp add: openai_read_def Let_def openai_lines_buffer)
  then have buf1: "oa_buffer ?st1 = last (split_newline (?b @ d))" by simp
  then have "CHR 0x0A \<notin> set (oa_buffer ?st1)" by (simp add: last_split_no_newline)
  from Cons.IH [OF this]
  have "foldl (openai_read parse model) ?st1 ds =
     foldl (openai_line parse model)
       (?st1\<lparr>oa_buffer := last (split_newline (oa_buffer ?st1 @ concat ds))\<rparr>)
       (butlast (split_newline (oa_buffer ?st1 @ concat ds)))" .
  also have "\<dots> = foldl (openai_line parse model)
       ((foldl (openai_line parse model) st (butlast (split_newline (?b @ d))))
          \<lparr>oa_buffer := last (split_newline (last (split_newline (?b @ d)) @ concat ds))\<rparr>)
       (butlast (split_newline (last (split_newline (?b @ d)) @ concat ds)))"
    by (simp only: buf1) (simp add: st1)
  also have "\<dots> = foldl (openai_line parse model)
       (st\<lparr>oa_buffer := last (split_newline ((?b @ d) @ concat ds))\<rparr>)
       (butlast (split_newline ((?b @ d) @ concat ds)))"
    using split_newline_append [of "?b @ d" "concat ds"]
    by (simp add: openai_lines_buffer)
  finally show ?case by simp
qed

lemma claude_stream_run_concat:
  "claude_stream_run parse model reads ending =
     claude_stream_run parse model [concat reads] ending"
proof -
  let ?s0 = "\<lparr>cl_buffer = [], messageStarted = False, cl_events = [], cl_parse_errors = 0\<rparr>"
  have "foldl (claude_read parse model) ?s0 reads =
        foldl (claude_read parse model) ?s0 [concat reads]"
    by (simp add: claude_reads_lines claude_read_def Let_def)
  then show ?thesis by (simp only: claude_stream_run_def)
qed

lemma openai_stream_run_concat:
  "openai_stream_run parse model reads ending =
     openai_stream_run parse model [concat reads] ending"
proof -
  let ?s0 = "\<lparr>oa_buffer = [], oa_events = [], oa_parse_errors = 0\<rparr>"
  have "foldl (openai_read parse model) ?s0 reads =
        foldl (openai_read parse model) ?s0 [concat reads]"
    by (simp add: openai_reads_lines openai_read_def Let_def)
  then show ?thesis by (simp only: openai_stream_run_def)
qed

text \<open>
  X1. What the stream loops emit depends on the text read, not on how the reads cut
  it: two sequences of reads with the same concatenation give the same events.
\<close>

theorem stream_reads_irrelevant:
  assumes "concat reads = concat reads'"
  shows "claude_stream_run parse model reads ending =
           claude_stream_run parse model reads' ending \<and>
         openai_stream_run parse model reads ending =
           openai_stream_run parse model reads' ending"
  using assms claude_stream_run_concat [of parse model reads ending]
    claude_stream_run_concat [of parse model reads' ending]
    openai_stream_run_concat [of parse model reads ending]
    openai_stream_run_concat [of parse model reads' ending]
  by simp

text \<open>
  The theorem of X1 at one event, read whole and read in three pieces.
\<close>

theorem stream_reads_irrelevant_witness:
  "claude_stream_run test_parse ''m'' [sse_event payload_hello] ReaderDone =
     claude_stream_run test_parse ''m''
       [''da'', ''ta: '' @ payload_hello, [CHR 0x0A, CHR 0x0A]] ReaderDone \<and>
   openai_stream_run test_parse ''m'' [sse_event payload_hello] ReaderDone =
     openai_stream_run test_parse ''m''
       [''da'', ''ta: '' @ payload_hello, [CHR 0x0A, CHR 0x0A]] ReaderDone"
proof -
  have "concat [sse_event payload_hello] =
        concat [''da'', ''ta: '' @ payload_hello, [CHR 0x0A, CHR 0x0A]]"
    by (simp add: sse_event_def)
  then show ?thesis by (rule stream_reads_irrelevant)
qed

subsection \<open>A stream of three events\<close>

lemma split_sse_event:
  assumes "CHR 0x0A \<notin> set payload"
  shows "split_newline (sse_event payload) = [''data: '' @ payload, [], []]"
proof -
  have "CHR 0x0A \<notin> set (''data: '' @ payload)" using assms by simp
  from split_newline_line [OF this, of "[CHR 0x0A]"] show ?thesis
    by (simp add: sse_event_def)
qed

lemma data_prefix: "take 6 (''data: '' @ p) = ''data: ''" "drop 6 (''data: '' @ p) = p"
  by simp_all

lemma openai_read_event:
  assumes "oa_buffer st = []" "CHR 0x0A \<notin> set payload" "payload \<noteq> ''[DONE]''"
    "parse payload = Some g"
  shows "openai_read parse model st (sse_event payload) =
           st\<lparr>oa_events := oa_events st @ openai_chunk model g\<rparr>"
  using assms
  by (simp add: openai_read_def split_sse_event openai_line_def data_prefix Let_def)

lemma claude_read_event:
  assumes "cl_buffer st = []" "CHR 0x0A \<notin> set payload" "payload \<noteq> ''[DONE]''"
    "parse payload = Some g"
  shows "claude_read parse model st (sse_event payload) =
           st\<lparr>messageStarted := True,
              cl_events := cl_events st @ claude_chunk model (messageStarted st) g\<rparr>"
  using assms
  by (simp add: claude_read_def split_sse_event claude_line_def data_prefix Let_def)

text \<open>
  C7. The upstream sends three events: one whose text is \<^verbatim>\<open>Hello\<close>, one whose text
  is \<^verbatim>\<open> world\<close>, and one with a finish signal and no text. However the reads cut
  them, the messages stream emits \<^verbatim>\<open>message_start\<close>, \<^verbatim>\<open>content_block_start\<close>, the two
  deltas, \<^verbatim>\<open>content_block_stop\<close>, \<^verbatim>\<open>message_delta\<close> and \<^verbatim>\<open>message_stop\<close>, and the
  chat-completion stream emits the two delta chunks, the chunk with the finish
  reason \<^verbatim>\<open>stop\<close> and the \<^verbatim>\<open>[DONE]\<close> marker; both streams are then closed.
\<close>

theorem hello_world_streams:
  assumes "parse p1 = Some g1" "first_part_text g1 = ''Hello''" "\<not> has_finish g1"
    and "parse p2 = Some g2" "first_part_text g2 = '' world''" "\<not> has_finish g2"
    and "parse p3 = Some g3" "first_part_text g3 = []" "has_finish g3"
    and "CHR 0x0A \<notin> set p1 \<union> set p2 \<union> set p3"
    and "p1 \<noteq> ''[DONE]''" "p2 \<noteq> ''[DONE]''" "p3 \<noteq> ''[DONE]''"
    and "concat reads = sse_event p1 @ sse_event p2 @ sse_event p3"
  shows "claude_stream_run parse model reads ReaderDone =
           ([MessageStart model, ContentBlockStart,
             ContentBlockDelta ''Hello'', ContentBlockDelta '' world'',
             ContentBlockStop,
             MessageDelta ''end_turn'' (usage_count candidatesTokenCount g3),
             MessageStop], Closed) \<and>
         openai_stream_run parse model reads ReaderDone =
           ([Chunk model (Some ''Hello'') None, Chunk model (Some '' world'') None,
             Chunk model None (Some ''stop''), DoneMarker], Closed)"
proof -
  let ?events = "[sse_event p1, sse_event p2, sse_event p3]"
  have n: "CHR 0x0A \<notin> set p1" "CHR 0x0A \<notin> set p2" "CHR 0x0A \<notin> set p3"
    using assms(10) by auto
  have same: "concat reads = concat ?events"
    using assms(14) by simp
  have c: "claude_stream_run parse model ?events ReaderDone =
           ([MessageStart model, ContentBlockStart,
             ContentBlockDelta ''Hello'', ContentBlockDelta '' world'',
             ContentBlockStop,
             MessageDelta ''end_turn'' (usage_count candidatesTokenCount g3),
             MessageStop], Closed)"
    using assms(1-13) n
    by (simp add: claude_stream_run_def claude_read_event claude_chunk_def Let_def)
  have o: "openai_stream_run parse model ?events ReaderDone =
           ([Chunk model (Some ''Hello'') None, Chunk model (Some '' world'') None,
             Chunk model None (Some ''stop''), DoneMarker], Closed)"
    using assms(1-13) n
    by (simp add: openai_stream_run_def openai_read_event openai_chunk_def Let_def)
  have "claude_stream_run parse model reads ReaderDone =
        claude_stream_run parse model ?events ReaderDone"
    using claude_stream_run_concat [of parse model reads]
      claude_stream_run_concat [of parse model ?events] same by simp
  moreover have "openai_stream_run parse model reads ReaderDone =
        openai_stream_run parse model ?events ReaderDone"
    using openai_stream_run_concat [of parse model reads]
      openai_stream_run_concat [of parse model ?events] same by simp
  ultimately show ?thesis using c o by simp
qed

text \<open>
  The theorem of C7 at three events as the upstream writes them, the first read in
  two pieces and the last two in one read.
\<close>

theorem hello_world_streams_witness:
  "claude_stream_run test_parse ''claude-3-opus-20240229''
      [''data: '', payload_hello @ [CHR 0x0A, CHR 0x0A],
       sse_event payload_world @ sse_event payload_finish] ReaderDone =
     ([MessageStart ''claude-3-opus-20240229'', ContentBlockStart,
       ContentBlockDelta ''Hello'', ContentBlockDelta '' world'',
       ContentBlockStop, MessageDelta ''end_turn'' 2, MessageStop], Closed) \<and>
   openai_stream_run test_parse ''claude-3-opus-20240229''
      [''data: '', payload_hello @ [CHR 0x0A, CHR 0x0A],
       sse_event payload_world @ sse_event payload_finish] ReaderDone =
     ([Chunk ''claude-3-opus-20240229'' (Some ''Hello'') None,
       Chunk ''claude-3-opus-20240229'' (Some '' world'') None,
       Chunk ''claude-3-opus-20240229'' None (Some ''stop''), DoneMarker], Closed)"
proof -
  have u: "usage_count candidatesTokenCount (finish_chunk ''STOP'' 2) = 2"
    by (simp add: usage_count_def finish_chunk_def or_zero_def)
  have p: "test_parse payload_hello = Some (text_chunk ''Hello'')"
    "test_parse payload_world = Some (text_chunk '' world'')"
    "test_parse payload_finish = Some (finish_chunk ''STOP'' 2)"
    by (simp_all add: test_parse_def payload_hello_def payload_world_def payload_finish_def)
  have t: "first_part_text (text_chunk ''Hello'') = ''Hello''"
    "first_part_text (text_chunk '' world'') = '' world''"
    "first_part_text (finish_chunk ''STOP'' 2) = []"
    by (simp_all add: first_part_text_def first_candidate_def text_chunk_def finish_chunk_def
        text_or_empty_def)
  have f: "\<not> has_finish (text_chunk ''Hello'')" "\<not> has_finish (text_chunk '' world'')"
    "has_finish (finish_chunk ''STOP'' 2)"
    by (simp_all add: has_finish_def first_candidate_def text_chunk_def finish_chunk_def)
  have n: "CHR 0x0A \<notin> set payload_hello \<union> set payload_world \<union> set payload_finish"
    by (simp add: payload_hello_def payload_world_def payload_finish_def)
  have d: "payload_hello \<noteq> ''[DONE]''" "payload_world \<noteq> ''[DONE]''"
    "payload_finish \<noteq> ''[DONE]''"
    by (simp_all add: payload_hello_def payload_world_def payload_finish_def)
  have r: "concat [''data: '', payload_hello @ [CHR 0x0A, CHR 0x0A],
       sse_event payload_world @ sse_event payload_finish] =
     sse_event payload_hello @ sse_event payload_world @ sse_event payload_finish"
    by (simp add: sse_event_def)
  from hello_world_streams [OF p(1) t(1) f(1) p(2) t(2) f(2) p(3) t(3) f(3) n d r,
      of "''claude-3-opus-20240229''"]
  show ?thesis by (simp only: u)
qed

subsection \<open>An event with several parts\<close>

text \<open>
  C10. Take a chunk whose first candidate has the parts \<open>p # ps\<close>. The text both
  stream loops read from it is the text of \<open>p\<close>. The chat-completion loop enqueues a
  delta chunk with the text of \<open>p\<close> when that text is not empty, then the chunk with
  the finish reason when the candidate has one; the messages loop enqueues the
  opening events when the message has not started, a delta with the text of \<open>p\<close> when
  that text is not empty, then the closing events when the candidate has a finish
  reason. No event carries text of \<open>ps\<close>: the events are those of the chunk with the
  one part \<open>p\<close>. When the upstream sends the chunk as one event, however the reads cut
  it, the two streams consist of these events. Both response translators return the
  texts of all the parts, concatenated.
\<close>

theorem stream_first_part_only:
  fixes g :: GeminiResponse and c :: GeminiCandidate and ct :: GeminiContent
    and cs :: "GeminiCandidate list"
  defines "chunk \<equiv> \<lambda>ps. g\<lparr>candidates := Some (c\<lparr>content := Some (ct\<lparr>parts := Some ps\<rparr>)\<rparr> # cs)\<rparr>"
  shows "first_part_text (chunk (p # ps)) = text_or_empty p \<and>
         openai_chunk model (chunk (p # ps)) =
           (if text_or_empty p = [] then [] else [Chunk model (Some (text_or_empty p)) None]) @
           (if finishReason c = None \<or> finishReason c = Some [] then []
            else [Chunk model None (Some ''stop'')]) \<and>
         claude_chunk model started (chunk (p # ps)) =
           (if started then [] else [MessageStart model, ContentBlockStart]) @
           (if text_or_empty p = [] then [] else [ContentBlockDelta (text_or_empty p)]) @
           (if finishReason c = None \<or> finishReason c = Some [] then []
            else [ContentBlockStop,
                  MessageDelta ''end_turn'' (usage_count candidatesTokenCount g),
                  MessageStop]) \<and>
         openai_chunk model (chunk (p # ps)) = openai_chunk model (chunk [p]) \<and>
         claude_chunk model started (chunk (p # ps)) = claude_chunk model started (chunk [p]) \<and>
         (parse payload = Some (chunk (p # ps)) \<and> CHR 0x0A \<notin> set payload \<and>
          payload \<noteq> ''[DONE]'' \<and> concat reads = sse_event payload \<longrightarrow>
            openai_stream_run parse model reads ReaderDone =
              ((if text_or_empty p = [] then [] else [Chunk model (Some (text_or_empty p)) None]) @
               (if finishReason c = None \<or> finishReason c = Some [] then []
                else [Chunk model None (Some ''stop'')]) @ [DoneMarker], Closed) \<and>
            claude_stream_run parse model reads ReaderDone =
              ([MessageStart model, ContentBlockStart] @
               (if text_or_empty p = [] then [] else [ContentBlockDelta (text_or_empty p)]) @
               (if finishReason c = None \<or> finishReason c = Some [] then []
                else [ContentBlockStop,
                      MessageDelta ''end_turn'' (usage_count candidatesTokenCount g),
                      MessageStop]), Closed)) \<and>
         map (msg_content \<circ> choice_message) (oa_choices (convertResponse (chunk (p # ps)) model)) =
           [text_or_empty p @ concat (map text_or_empty ps)] \<and>
         map block_text (cl_content (convertGeminiToClaude (chunk (p # ps)) model)) =
           [text_or_empty p @ concat (map text_or_empty ps)]"
proof -
  have first: "first_part_text (chunk (p # ps)) = text_or_empty p"
    by (simp add: chunk_def first_part_text_def first_candidate_def)
  have fin: "has_finish (chunk qs) \<longleftrightarrow> \<not> (finishReason c = None \<or> finishReason c = Some [])"
    for qs
    by (simp add: chunk_def has_finish_def first_candidate_def split: option.splits)
  have usage: "usage_count candidatesTokenCount (chunk qs) = usage_count candidatesTokenCount g"
    for qs
    by (simp add: chunk_def usage_count_def)
  have oc: "openai_chunk model (chunk (p # ps)) =
           (if text_or_empty p = [] then [] else [Chunk model (Some (text_or_empty p)) None]) @
           (if finishReason c = None \<or> finishReason c = Some [] then []
            else [Chunk model None (Some ''stop'')])"
    by (simp add: openai_chunk_def first fin Let_def)
  have cc: "claude_chunk model b (chunk (p # ps)) =
           (if b then [] else [MessageStart model, ContentBlockStart]) @
           (if text_or_empty p = [] then [] else [ContentBlockDelta (text_or_empty p)]) @
           (if finishReason c = None \<or> finishReason c = Some [] then []
            else [ContentBlockStop,
                  MessageDelta ''end_turn'' (usage_count candidatesTokenCount g),
                  MessageStop])" for b
    by (simp add: claude_chunk_def first fin usage Let_def)
  have one: "first_part_text (chunk [p]) = text_or_empty p"
    by (simp add: chunk_def first_part_text_def first_candidate_def)
  have o1: "openai_chunk model (chunk (p # ps)) = openai_chunk model (chunk [p])"
    by (simp add: openai_chunk_def first one fin Let_def)
  have c1: "claude_chunk model started (chunk (p # ps)) = claude_chunk model started (chunk [p])"
    by (simp add: claude_chunk_def first one fin usage Let_def)
  have run: "openai_stream_run parse model reads ReaderDone =
               (openai_chunk model (chunk (p # ps)) @ [DoneMarker], Closed) \<and>
             claude_stream_run parse model reads ReaderDone =
               (claude_chunk model False (chunk (p # ps)), Closed)"
    if h: "parse payload = Some (chunk (p # ps))" "CHR 0x0A \<notin> set payload"
      "payload \<noteq> ''[DONE]''" "concat reads = sse_event payload"
  proof -
    have "openai_stream_run parse model [sse_event payload] ReaderDone =
               (openai_chunk model (chunk (p # ps)) @ [DoneMarker], Closed)"
      using h(1-3) by (simp add: openai_stream_run_def openai_read_event)
    moreover have "claude_stream_run parse model [sse_event payload] ReaderDone =
               (claude_chunk model False (chunk (p # ps)), Closed)"
      using h(1-3) by (simp add: claude_stream_run_def claude_read_event)
    moreover have "openai_stream_run parse model reads ReaderDone =
        openai_stream_run parse model [sse_event payload] ReaderDone"
      using openai_stream_run_concat [of parse model reads ReaderDone] by (simp only: h(4))
    moreover have "claude_stream_run parse model reads ReaderDone =
        claude_stream_run parse model [sse_event payload] ReaderDone"
      using claude_stream_run_concat [of parse model reads ReaderDone] by (simp only: h(4))
    ultimately show ?thesis by simp
  qed
  have tr: "map (msg_content \<circ> choice_message)
              (oa_choices (convertResponse (chunk (p # ps)) model)) =
           [text_or_empty p @ concat (map text_or_empty ps)]"
    "map block_text (cl_content (convertGeminiToClaude (chunk (p # ps)) model)) =
           [text_or_empty p @ concat (map text_or_empty ps)]"
    by (simp_all add: chunk_def first_candidate_def convertResponse_def
        convertGeminiToClaude_def all_parts_text_def Let_def)
  show ?thesis
    using first oc cc [of started] cc [of False] o1 c1 run tr by simp
qed

text \<open>
  The theorem of C10 at an event whose chunk has the two parts \<^verbatim>\<open>Hello\<close> and
  \<^verbatim>\<open> world\<close>, read in two pieces: both streams carry \<^verbatim>\<open>Hello\<close> only, and both
  response translators return \<^verbatim>\<open>Hello world\<close>.
\<close>

theorem stream_first_part_only_witness:
  "openai_stream_run parse_two_parts ''m''
      [''data: '', payload_two_parts @ [CHR 0x0A, CHR 0x0A]] ReaderDone =
     ([Chunk ''m'' (Some ''Hello'') None, DoneMarker], Closed) \<and>
   claude_stream_run parse_two_parts ''m''
      [''data: '', payload_two_parts @ [CHR 0x0A, CHR 0x0A]] ReaderDone =
     ([MessageStart ''m'', ContentBlockStart, ContentBlockDelta ''Hello''], Closed) \<and>
   first_part_text two_part_chunk = ''Hello'' \<and>
   openai_chunk ''m'' two_part_chunk = [Chunk ''m'' (Some ''Hello'') None] \<and>
   claude_chunk ''m'' True two_part_chunk = [ContentBlockDelta ''Hello''] \<and>
   map (msg_content \<circ> choice_message) (oa_choices (convertResponse two_part_chunk ''m'')) =
     [''Hello world''] \<and>
   map block_text (cl_content (convertGeminiToClaude two_part_chunk ''m'')) = [''Hello world'']"
proof -
  let ?g = "\<lparr>candidates = None, usageMetadata = None\<rparr>"
  let ?c = "\<lparr>content = None, finishReason = None\<rparr>"
  let ?ct = "\<lparr>parts = None\<rparr>"
  let ?p = "\<lparr>part_text = Some ''Hello''\<rparr>"
  let ?ps = "[\<lparr>part_text = Some '' world''\<rparr>]"
  have e: "?g\<lparr>candidates := Some (?c\<lparr>content := Some (?ct\<lparr>parts := Some (?p # ?ps)\<rparr>)\<rparr> # [])\<rparr> =
           two_part_chunk"
    by (simp add: two_part_chunk_def)
  have h: "parse_two_parts payload_two_parts = Some two_part_chunk"
    "CHR 0x0A \<notin> set payload_two_parts" "payload_two_parts \<noteq> ''[DONE]''"
    "concat [''data: '', payload_two_parts @ [CHR 0x0A, CHR 0x0A]] = sse_event payload_two_parts"
    by (simp_all add: parse_two_parts_def payload_two_parts_def sse_event_def)
  from stream_first_part_only [where g = ?g and c = ?c and ct = ?ct and cs = "[]" and p = ?p
      and ps = ?ps and parse = parse_two_parts and payload = payload_two_parts
      and reads = "[''data: '', payload_two_parts @ [CHR 0x0A, CHR 0x0A]]"
      and model = "''m''" and started = True]
  show ?thesis
    unfolding e using h by (simp add: text_or_empty_def)
qed

section \<open>Request handlers\<close>

text \<open>
  C9 fails on the code. The chat-completion handler answers a body without
  \<^verbatim>\<open>model\<close> or without \<^verbatim>\<open>messages\<close> with status 400 and an error body of its
  protocol. The messages handler checks neither field: a body without \<^verbatim>\<open>messages\<close>
  reaches \<^verbatim>\<open>convertClaudeToGemini\<close>, whose exception leaves the handler, and a body
  without \<^verbatim>\<open>model\<close> is translated and handed on to the upstream.
\<close>

theorem messages_handler_no_validation:
  "POST_messages ok_auth (Some empty_claude_request) (Some (acct_b, ''at-b'')) =
     UncaughtTypeError \<and>
   POST_messages ok_auth
     (Some (empty_claude_request
        \<lparr>cr_messages := Some [\<lparr>cm_role = ''user'', cm_content = ClaudeText ''Hello''\<rparr>]\<rparr>))
     (Some (acct_b, ''at-b'')) =
     HandsOn
       (\<lparr>contents = [\<lparr>turn_role = ''user'', turn_parts = [TextPart ''Hello'']\<rparr>],
         generationConfig =
           \<lparr>maxOutputTokens = None, temperature = None, topP = None, stopSequences = None\<rparr>,
         systemInstruction = None\<rparr>, ''at-b'') \<and>
   POST_chat_completions ok_auth (Some empty_chat_request) (Some (acct_b, ''at-b'')) =
     Respond 400 (OpenAIErr ''Missing required field: model'' ''invalid_request_error'' None) \<and>
   POST_chat_completions ok_auth (Some (empty_chat_request\<lparr>cc_model := Some ''gpt-4''\<rparr>))
     (Some (acct_b, ''at-b'')) =
     Respond 400 (OpenAIErr ''Missing required field: messages'' ''invalid_request_error'' None)"
  by (simp add: POST_messages_def POST_chat_completions_def ok_auth_def empty_claude_request_def
      empty_chat_request_def convertClaudeToGemini_def convert_message_def truthy_str_def)

end
